theory Spec2Isabelle
  imports Complex_Main "HOL-Library.Word"
begin

section \<open>The result entity of \<^verbatim>\<open>effective_area.py\<close>\<close>

text \<open>
  Floating-point numbers are modelled as real numbers: the development covers the
  arithmetic structure of the module, not rounding, infinities or NaN. The trial counts
  are a NumPy array of 64-bit integers (\<^verbatim>\<open>np.ones(elev.size, dtype=int)\<close>): 64-bit words,
  read as signed numbers, whose addition wraps around.

  Every exception the module can raise is a value of \<open>error\<close>. The two \<^verbatim>\<open>ValueError\<close>s
  of \<^verbatim>\<open>__add__\<close> (the configuration-mismatch errors) are kept apart from the
  \<^verbatim>\<open>ValueError\<close> NumPy raises when two operands cannot be broadcast together.
\<close>

datatype error =
    ElevationMismatch   \<comment> \<open>ValueError: "... evaluated at the same elevation angles"\<close>
  | ArgsMismatch        \<comment> \<open>ValueError: "... generated with different arguments!"\<close>
  | BroadcastError      \<comment> \<open>ValueError of NumPy: operands could not be broadcast together\<close>
  | AmbiguousTruthValue \<comment> \<open>ValueError of NumPy: the truth value of an array is ambiguous\<close>
  | NoFilenames         \<comment> \<open>ValueError: "No filenames were given to `from_files`."\<close>
  | FileError           \<comment> \<open>\<^verbatim>\<open>open\<close> or \<^verbatim>\<open>pickle.load\<close> failed\<close>
  | KeyError            \<comment> \<open>a key missing from the \<^verbatim>\<open>args\<close> dictionary\<close>
  | IndexError          \<comment> \<open>\<^verbatim>\<open>N[i]\<close> out of range\<close>
  | UnboundLocalError   \<comment> \<open>a local variable read before any assignment\<close>

text \<open>
  The values of the \<^verbatim>\<open>args\<close> dictionary: Python numbers (an \<^verbatim>\<open>int\<close> and a \<^verbatim>\<open>float\<close>
  of the same value compare equal, so one constructor holds both) and the gain table
  returned by \<^verbatim>\<open>antenna.directivity\<close>, a NumPy array with one entry per azimuth.
\<close>

datatype arg_value = Num real | Arr "real list"

record EffectiveArea =
  N0 :: "64 word list"
  elevation :: "real list"
  effective_area :: "real list list"
  geometric :: "real list"
  pexit :: "real list"
  pdecay :: "real list"
  ptrigger :: "real list"
  args :: "string \<rightharpoonup> arg_value"

subsection \<open>NumPy's elementwise operations\<close>

text \<open>
  \<^verbatim>\<open>a + b\<close> on one-dimensional arrays works entry by entry when the lengths agree,
  stretches an operand of length one, and raises otherwise. A two-dimensional array is a
  list of rows; the same rule applies to the rows and inside each pair of rows.
\<close>

fun collect :: "(error + 'a) list \<Rightarrow> error + 'a list" where
  "collect [] = Inr []"
| "collect (r # rs) =
     (case r of
        Inl e \<Rightarrow> Inl e
      | Inr x \<Rightarrow> (case collect rs of Inl e \<Rightarrow> Inl e | Inr xs \<Rightarrow> Inr (x # xs)))"

definition broadcast :: "('a \<Rightarrow> 'a \<Rightarrow> error + 'b) \<Rightarrow> 'a list \<Rightarrow> 'a list \<Rightarrow> error + 'b list" where
  "broadcast f xs ys =
     (if length xs = length ys then collect (map2 f xs ys)
      else if length xs = 1 then collect (map (f (hd xs)) ys)
      else if length ys = 1 then collect (map (\<lambda>x. f x (hd ys)) xs)
      else Inl BroadcastError)"

definition np_add :: "('a::plus) list \<Rightarrow> 'a list \<Rightarrow> error + 'a list" where
  "np_add = broadcast (\<lambda>a b. Inr (a + b))"

definition np_add2 :: "real list list \<Rightarrow> real list list \<Rightarrow> error + real list list" where
  "np_add2 = broadcast np_add"

text \<open>\<^verbatim>\<open>0.5 * (x + y)\<close> on one- and two-dimensional arrays.\<close>

definition average :: "real list \<Rightarrow> real list \<Rightarrow> error + real list" where
  "average xs ys =
     (case np_add xs ys of Inl e \<Rightarrow> Inl e | Inr s \<Rightarrow> Inr (map (\<lambda>v. (1/2) * v) s))"

definition average2 :: "real list list \<Rightarrow> real list list \<Rightarrow> error + real list list" where
  "average2 xs ys =
     (case np_add2 xs ys of Inl e \<Rightarrow> Inl e | Inr s \<Rightarrow> Inr (map (map (\<lambda>v. (1/2) * v)) s))"

text \<open>
  \<^verbatim>\<open>np.isclose(a, b)\<close> with its default tolerances \<^verbatim>\<open>rtol=1e-05\<close>, \<^verbatim>\<open>atol=1e-08\<close>:
  \<open>|a - b| \<le> atol + rtol * |b|\<close>. The test is not symmetric in \<open>a\<close> and \<open>b\<close>.
\<close>

definition isclose :: "real \<Rightarrow> real \<Rightarrow> bool" where
  "isclose a b \<longleftrightarrow> \<bar>a - b\<bar> \<le> 1 / 10^8 + (1 / 10^5) * \<bar>b\<bar>"

subsection \<open>Comparing two dictionaries of arguments\<close>

definition and_then :: "error + 'a \<Rightarrow> ('a \<Rightarrow> error + 'b) \<Rightarrow> error + 'b" where
  "and_then r f = (case r of Inl e \<Rightarrow> Inl e | Inr x \<Rightarrow> f x)"

text \<open>
  \<^verbatim>\<open>self.args != other.args\<close> compares the two dictionaries value by value with \<^verbatim>\<open>==\<close>
  and asks each answer for its truth value. Two numbers answer with a truth value. Two
  arrays answer with an array of truth values, entry by entry under the broadcasting
  rule, and NumPy gives a truth value to such an array only when it has one entry: for
  more entries (and, since NumPy 2.2, for none) it raises \<^verbatim>\<open>ValueError\<close>.

  The two operands are two objects and their gain tables two arrays: Python's shortcut
  for one and the same object is not modelled. A number and an array under one key are
  taken as different; the dictionaries of this module hold the gain table under one key
  and numbers under the others.
\<close>

fun truth :: "bool list \<Rightarrow> error + bool" where
  "truth [b] = Inr b"
| "truth bs = Inl AmbiguousTruthValue"

fun value_eq :: "arg_value \<Rightarrow> arg_value \<Rightarrow> error + bool" where
  "value_eq (Num a) (Num b) = Inr (a = b)"
| "value_eq (Arr xs) (Arr ys) = and_then (broadcast (\<lambda>x y. Inr (x = y)) xs ys) truth"
| "value_eq (Num a) (Arr ys) = Inr False"
| "value_eq (Arr xs) (Num b) = Inr False"

text \<open>
  The keys of the dictionary that \<^verbatim>\<open>calculate\<close> builds, in the order in which it inserts
  them. A dictionary comparison first compares the numbers of keys, then visits the keys
  of the left dictionary in the order of insertion and stops at the first key that the
  right dictionary lacks, at the first pair of values that differ, or at the first
  comparison that raises. Two dictionaries that agree on these keys are equal when they
  are the same mapping.
\<close>

definition arg_keys :: "string list" where
  "arg_keys = [''Enu'', ''altitude'', ''prototype'', ''maxview'', ''icethickness'',
     ''antennas'', ''gain'', ''trigger_SNR'', ''minfreq'', ''maxfreq'']"

fun compare_at :: "string list \<Rightarrow> (string \<rightharpoonup> arg_value) \<Rightarrow> (string \<rightharpoonup> arg_value) \<Rightarrow> error + bool" where
  "compare_at [] a b = Inr True"
| "compare_at (k # ks) a b =
     (case a k of
        None \<Rightarrow> compare_at ks a b
      | Some x \<Rightarrow>
          (case b k of
             None \<Rightarrow> Inr False
           | Some y \<Rightarrow>
               and_then (value_eq x y) (\<lambda>same. if same then compare_at ks a b else Inr False)))"

definition key_count :: "(string \<rightharpoonup> arg_value) \<Rightarrow> nat" where
  "key_count a = length (filter (\<lambda>k. a k \<noteq> None) arg_keys)"

definition dict_ne :: "(string \<rightharpoonup> arg_value) \<Rightarrow> (string \<rightharpoonup> arg_value) \<Rightarrow> error + bool" where
  "dict_ne a b =
     (if key_count a \<noteq> key_count b then Inr True
      else and_then (compare_at arg_keys a b) (\<lambda>same. Inr (\<not> same \<or> a \<noteq> b)))"

subsection \<open>\<^verbatim>\<open>EffectiveArea.__add__\<close>\<close>

text \<open>
  The checks and assignments are in the order of the source: the size of the elevation
  grids, their closeness, the sum of \<^verbatim>\<open>N0\<close>, the comparison of \<^verbatim>\<open>args\<close>, then the five
  averages. The result carries the elevation grid and the \<^verbatim>\<open>args\<close> of the left operand.
\<close>

definition add :: "EffectiveArea \<Rightarrow> EffectiveArea \<Rightarrow> error + EffectiveArea" where
  "add self other =
     (if \<not> (length (elevation self) = length (elevation other)) then Inl ElevationMismatch
      else if \<not> list_all2 isclose (elevation self) (elevation other) then Inl ElevationMismatch
      else
        and_then (np_add (N0 self) (N0 other)) (\<lambda>n0.
        and_then (dict_ne (args self) (args other)) (\<lambda>differ.
        if differ then Inl ArgsMismatch
        else
          and_then (average2 (effective_area self) (effective_area other)) (\<lambda>ea.
          and_then (average (geometric self) (geometric other)) (\<lambda>g.
          and_then (average (pexit self) (pexit other)) (\<lambda>pe.
          and_then (average (pdecay self) (pdecay other)) (\<lambda>pd.
          and_then (average (ptrigger self) (ptrigger other)) (\<lambda>pt.
            Inr \<lparr>N0 = n0, elevation = elevation self, effective_area = ea, geometric = g,
                 pexit = pe, pdecay = pd, ptrigger = pt, args = args self\<rparr>))))))))"

text \<open>
  The invariant of the data model: every per-elevation array has one entry per elevation
  bin, and every row of the effective-area grid has one entry per azimuth bin.
\<close>

definition well_shaped :: "nat \<Rightarrow> nat \<Rightarrow> EffectiveArea \<Rightarrow> bool" where
  "well_shaped n m A \<longleftrightarrow>
     length (elevation A) = n \<and> length (N0 A) = n \<and> length (effective_area A) = n \<and>
     list_all (\<lambda>row. length row = m) (effective_area A) \<and>
     length (geometric A) = n \<and> length (pexit A) = n \<and> length (pdecay A) = n \<and>
     length (ptrigger A) = n"

subsection \<open>\<^verbatim>\<open>from_file\<close> and \<^verbatim>\<open>from_files\<close>\<close>

text \<open>
  The file system maps a file name to the pickled result it holds; a name with no entry
  makes \<^verbatim>\<open>from_file\<close> fail. \<^verbatim>\<open>Aeff += A\<close> calls \<^verbatim>\<open>__add__\<close>, the class has no in-place
  addition.
\<close>

type_synonym filesystem = "string \<rightharpoonup> EffectiveArea"

definition from_file :: "filesystem \<Rightarrow> string \<Rightarrow> error + EffectiveArea" where
  "from_file fs filename = (case fs filename of None \<Rightarrow> Inl FileError | Some A \<Rightarrow> Inr A)"

fun from_files_loop :: "filesystem \<Rightarrow> EffectiveArea \<Rightarrow> string list \<Rightarrow> error + EffectiveArea" where
  "from_files_loop fs Aeff [] = Inr Aeff"
| "from_files_loop fs Aeff (f # rest) =
     (case from_file fs f of
        Inl e \<Rightarrow> Inl e
      | Inr A \<Rightarrow>
          (case args A ''altitude'' of
             None \<Rightarrow> Inl KeyError
           | Some alt \<Rightarrow>
               if alt = Num (387553 / 100000) then from_files_loop fs Aeff rest
               else (case add Aeff A of
                       Inl e \<Rightarrow> Inl e
                     | Inr S \<Rightarrow> from_files_loop fs S rest)))"

definition from_files :: "filesystem \<Rightarrow> string list \<Rightarrow> error + EffectiveArea" where
  "from_files fs filenames =
     (case filenames of
        [] \<Rightarrow> Inl NoFilenames
      | f # rest \<Rightarrow>
          (case from_file fs f of Inl e \<Rightarrow> Inl e | Inr Aeff \<Rightarrow> from_files_loop fs Aeff rest))"

text \<open>
  Combining a start value with a list of results, left to right, stopping at the first
  error: what the loop of \<^verbatim>\<open>from_files\<close> is compared with.
\<close>

fun add_all :: "EffectiveArea \<Rightarrow> EffectiveArea list \<Rightarrow> error + EffectiveArea" where
  "add_all Aeff [] = Inr Aeff"
| "add_all Aeff (A # As) =
     (case add Aeff A of Inl e \<Rightarrow> Inl e | Inr S \<Rightarrow> add_all S As)"

section \<open>The Monte-Carlo loop of \<^verbatim>\<open>calculate\<close>\<close>

subsection \<open>What the collaborators return\<close>

text \<open>
  The geometry sampler, the tau-exit table, the decay sampler, the decay-probability
  model, the antenna model and the horizon functions are other modules of the package;
  several of them draw random numbers. Their answers in one pass of the loop are inputs
  of the model. The arrays of one batch have one entry per trial, and the model keeps the
  entries of one trial together. Only the quantities that reach the stored results are
  kept: \<^verbatim>\<open>Ag.emergence\<close> is read for its size alone, which is the number of trials.

  \<^verbatim>\<open>Pexit\<close> is a masked array, masked where no tau exited: a masked entry is \<open>None\<close>.
  The other per-trial arrays are taken as plain arrays.
\<close>

type_synonym vec3 = "real \<times> real \<times> real"

record trial =
  origin :: vec3                \<comment> \<open>the row of \<^verbatim>\<open>Ag.trials\<close>\<close>
  axis :: vec3                  \<comment> \<open>the row of \<^verbatim>\<open>Ag.axis\<close>\<close>
  dot :: real                   \<comment> \<open>the entry of \<^verbatim>\<open>Ag.dot\<close>\<close>
  Pexit :: "real option"        \<comment> \<open>\<^verbatim>\<open>tauexit(...)\<close>, first component\<close>
  decay_length :: real          \<comment> \<open>\<^verbatim>\<open>tauola.sample_range(Etau)\<close>\<close>
  Pdecay :: real                \<comment> \<open>\<^verbatim>\<open>decay.probability(decay_length, Ag.dbeacon)\<close>\<close>
  view :: real                  \<comment> \<open>\<^verbatim>\<open>geometry.decay_view(...)\<close>\<close>
  Eshower :: real               \<comment> \<open>\<^verbatim>\<open>tauola.sample_tau_energies(...)\<close>\<close>

record batch =
  trials :: "trial list"
  area :: real                  \<comment> \<open>\<^verbatim>\<open>Ag.area\<close>\<close>
  beacon :: vec3                \<comment> \<open>\<^verbatim>\<open>Ag.beacon\<close>\<close>
  gain :: arg_value             \<comment> \<open>\<^verbatim>\<open>antenna.directivity(prototype, azimuths % 360)\<close>\<close>
  horizon_distance :: real      \<comment> \<open>\<^verbatim>\<open>geometry.distance_to_horizon(...)\<close>\<close>
  horizon_angle :: real         \<comment> \<open>\<^verbatim>\<open>geometry.horizon_angle(...)\<close>\<close>

subsection \<open>Vectors\<close>

fun vadd :: "vec3 \<Rightarrow> vec3 \<Rightarrow> vec3" where
  "vadd (a, b, c) (x, y, z) = (a + x, b + y, c + z)"

fun vsub :: "vec3 \<Rightarrow> vec3 \<Rightarrow> vec3" where
  "vsub (a, b, c) (x, y, z) = (a - x, b - y, c - z)"

fun scale :: "real \<Rightarrow> vec3 \<Rightarrow> vec3" where
  "scale s (x, y, z) = (s * x, s * y, s * z)"

fun vdiv :: "vec3 \<Rightarrow> real \<Rightarrow> vec3" where
  "vdiv (x, y, z) s = (x / s, y / s, z / s)"

fun vdot :: "vec3 \<Rightarrow> vec3 \<Rightarrow> real" where
  "vdot (a, b, c) (x, y, z) = a * x + b * y + c * z"

fun norm3 :: "vec3 \<Rightarrow> real" where
  "norm3 (x, y, z) = sqrt (x * x + y * y + z * z)"

subsection \<open>The trigger heuristic and the horizon cuts\<close>

definition intensity :: "trial \<Rightarrow> real" where
  "intensity t = (Eshower t / 10^9) * exp (- (77/10) - (39/100) * view t)"

definition raw_trigger :: "trial \<Rightarrow> bool" where
  "raw_trigger t \<longleftrightarrow> intensity t > 24 / 10^10"

definition decay_point :: "trial \<Rightarrow> vec3" where
  "decay_point t = vadd (origin t) (scale (decay_length t) (axis t))"

definition v :: "batch \<Rightarrow> trial \<Rightarrow> vec3" where
  "v Ag t = vsub (decay_point t) (beacon Ag)"

definition viewdot :: "batch \<Rightarrow> trial \<Rightarrow> real" where
  "viewdot Ag t =
     vdot (vdiv (beacon Ag) (norm3 (beacon Ag))) (vdiv (v Ag t) (norm3 (v Ag t)))"

definition theta :: "batch \<Rightarrow> trial \<Rightarrow> real" where
  "theta Ag t = pi / 2 - arccos (viewdot Ag t)"

definition D :: "batch \<Rightarrow> trial \<Rightarrow> real" where
  "D Ag t = norm3 (v Ag t)"

definition beyond :: "batch \<Rightarrow> trial \<Rightarrow> bool" where
  "beyond Ag t \<longleftrightarrow> D Ag t > horizon_distance Ag"

definition below :: "batch \<Rightarrow> trial \<Rightarrow> bool" where
  "below Ag t \<longleftrightarrow> theta Ag t < horizon_angle Ag"

definition invisible :: "batch \<Rightarrow> trial \<Rightarrow> bool" where
  "invisible Ag t \<longleftrightarrow> beyond Ag t \<and> below Ag t"

text \<open>
  \<^verbatim>\<open>Ptrig\<close> after the two masked assignments \<^verbatim>\<open>Ptrig[invisible] = 0.0\<close> and
  \<^verbatim>\<open>Ptrig[theta > 0.0] = 0.0\<close>, in this order.
\<close>

definition Ptrig :: "batch \<Rightarrow> trial \<Rightarrow> bool" where
  "Ptrig Ag t =
     (let p = raw_trigger t;
          p = (if invisible Ag t then False else p);
          p = (if theta Ag t > 0 then False else p)
      in p)"

subsection \<open>Reductions over one batch\<close>

text \<open>
  \<^verbatim>\<open>np.mean\<close> and \<^verbatim>\<open>np.sum\<close> of a masked array run over the entries that are not
  masked: the mean divides by their number. Where the source divides by zero (no entry
  unmasked, or a trial count of zero) the floating-point result is not a finite number,
  which the real numbers of the model do not represent.
\<close>

definition mean :: "real list \<Rightarrow> real" where
  "mean xs = sum_list xs / real (length xs)"

fun unmasked :: "'a option list \<Rightarrow> 'a list" where
  "unmasked [] = []"
| "unmasked (None # xs) = unmasked xs"
| "unmasked (Some x # xs) = x # unmasked xs"

definition ma_mean :: "real option list \<Rightarrow> real" where
  "ma_mean xs = mean (unmasked xs)"

definition ma_sum :: "real option list \<Rightarrow> real" where
  "ma_sum xs = sum_list (unmasked xs)"

text \<open>The entry of \<^verbatim>\<open>(Ag.area * Ag.dot * Pexit * Pdecay) * Ptrig\<close> at one trial.\<close>

definition weighted :: "batch \<Rightarrow> trial \<Rightarrow> real option" where
  "weighted Ag t =
     map_option (\<lambda>pe. (area Ag * dot t * pe * Pdecay t) * of_bool (Ptrig Ag t)) (Pexit t)"

definition bin_geometric :: "real \<Rightarrow> batch \<Rightarrow> real" where
  "bin_geometric ntrials Ag = (area Ag * sum_list (map dot (trials Ag))) / ntrials"

definition bin_pexit :: "batch \<Rightarrow> real" where
  "bin_pexit Ag = ma_mean (map Pexit (trials Ag))"

definition bin_pdecay :: "batch \<Rightarrow> real" where
  "bin_pdecay Ag = mean (map Pdecay (trials Ag))"

definition bin_ptrigger :: "batch \<Rightarrow> real" where
  "bin_ptrigger Ag = mean (map (\<lambda>t. of_bool (Ptrig Ag t)) (trials Ag))"

definition bin_effective_area :: "real \<Rightarrow> batch \<Rightarrow> real" where
  "bin_effective_area ntrials Ag = ma_sum (map (weighted Ag) (trials Ag)) / ntrials"

subsection \<open>\<^verbatim>\<open>calculate\<close>\<close>

text \<open>
  The elevation grid as the caller passes it. \<^verbatim>\<open>np.atleast_1d\<close> makes an array of it,
  of an integer type when every entry is an integer (\<^verbatim>\<open>calculate(E, 0)\<close>, or an array of
  integer type) and of floating-point type otherwise. \<^verbatim>\<open>geometric\<close>, \<^verbatim>\<open>pexit\<close>,
  \<^verbatim>\<open>pdecay\<close> and \<^verbatim>\<open>ptrigger\<close> are \<^verbatim>\<open>np.zeros_like(elev)\<close> and take the type of the
  grid: an assignment into an array of integer type drops the fractional part of the
  value. \<^verbatim>\<open>effective_area\<close> is \<^verbatim>\<open>np.zeros((elev.size, azimuths.size))\<close>, always of
  floating-point type.
\<close>

datatype number = Float real | Integer int

fun is_Integer :: "number \<Rightarrow> bool" where
  "is_Integer (Integer k) = True"
| "is_Integer (Float x) = False"

fun as_float :: "number \<Rightarrow> real" where
  "as_float (Integer k) = of_int k"
| "as_float (Float x) = x"

definition integer_grid :: "number list \<Rightarrow> bool" where
  "integer_grid elev \<longleftrightarrow> elev \<noteq> [] \<and> list_all is_Integer elev"

definition drop_fraction :: "real \<Rightarrow> int" where
  "drop_fraction x = (if 0 \<le> x then \<lfloor>x\<rfloor> else \<lceil>x\<rceil>)"

definition stored :: "number list \<Rightarrow> real \<Rightarrow> real" where
  "stored elev x = (if integer_grid elev then of_int (drop_fraction x) else x)"

text \<open>
  \<^verbatim>\<open>N\<close> is a Python integer, spread over the grid as 64-bit integers
  (\<^verbatim>\<open>N * np.ones(elev.size, dtype=int)\<close>), or a NumPy array, here of 64-bit integers,
  which is taken as it is, whatever its length.
\<close>

datatype trial_counts = Scalar int | Array "64 word list"

record params =
  Enu :: real
  altitude :: real
  prototype :: int
  maxview :: real
  icethickness :: int
  N :: trial_counts
  antennas :: int
  minfreq :: real
  maxfreq :: real
  trigger_SNR :: real
  azimuths :: "real list"

text \<open>
  The local variables the loop writes: the five output arrays, and \<^verbatim>\<open>gain\<close>, which
  has no value until a pass of the loop assigns it.
\<close>

record locals =
  l_effective_area :: "real list list"
  l_geometric :: "real list"
  l_pexit :: "real list"
  l_pdecay :: "real list"
  l_ptrigger :: "real list"
  l_gain :: "arg_value option"

text \<open>
  One pass of the loop at index \<open>i\<close>. \<^verbatim>\<open>N[i]\<close> is read for the call of the sampler,
  before the test for an empty batch. The four factors are stored in arrays of the type
  of the grid. The sum over the trials is a scalar, which the assignment to
  \<^verbatim>\<open>effective_area[i, :]\<close> writes into every azimuth column.
\<close>

definition loop_body :: "params \<Rightarrow> number list \<Rightarrow> 64 word list \<Rightarrow> (nat \<Rightarrow> batch) \<Rightarrow> nat \<Rightarrow> locals \<Rightarrow> error + locals" where
  "loop_body p elev Ns sampler i st =
     (if length Ns \<le> i then Inl IndexError
      else
        let Ag = sampler i in
        if length (trials Ag) = 0 then Inr st
        else
          let ntrials = real_of_int (sint (Ns ! i)) in
          Inr (st\<lparr>l_gain := Some (gain Ag),
                  l_geometric := (l_geometric st)[i := stored elev (bin_geometric ntrials Ag)],
                  l_pexit := (l_pexit st)[i := stored elev (bin_pexit Ag)],
                  l_pdecay := (l_pdecay st)[i := stored elev (bin_pdecay Ag)],
                  l_ptrigger := (l_ptrigger st)[i := stored elev (bin_ptrigger Ag)],
                  l_effective_area := (l_effective_area st)
                    [i := replicate (length (azimuths p)) (bin_effective_area ntrials Ag)]\<rparr>))"

fun loop :: "params \<Rightarrow> number list \<Rightarrow> 64 word list \<Rightarrow> (nat \<Rightarrow> batch) \<Rightarrow> nat list \<Rightarrow> locals \<Rightarrow> error + locals" where
  "loop p elev Ns sampler [] st = Inr st"
| "loop p elev Ns sampler (i # is) st =
     (case loop_body p elev Ns sampler i st of
        Inl e \<Rightarrow> Inl e
      | Inr st' \<Rightarrow> loop p elev Ns sampler is st')"

definition trial_array :: "params \<Rightarrow> nat \<Rightarrow> 64 word list" where
  "trial_array p n = (case N p of Scalar k \<Rightarrow> replicate n (word_of_int k) | Array ns \<Rightarrow> ns)"

text \<open>The arrays before the loop: zeros, in either type.\<close>

definition zeros :: "params \<Rightarrow> nat \<Rightarrow> locals" where
  "zeros p n =
     \<lparr>l_effective_area = replicate n (replicate (length (azimuths p)) 0),
      l_geometric = replicate n 0, l_pexit = replicate n 0, l_pdecay = replicate n 0,
      l_ptrigger = replicate n 0, l_gain = None\<rparr>"

definition degrees :: "real \<Rightarrow> real" where
  "degrees x = x * 180 / pi"

definition make_args :: "params \<Rightarrow> arg_value \<Rightarrow> (string \<rightharpoonup> arg_value)" where
  "make_args p g =
     [''Enu'' \<mapsto> Num (Enu p), ''altitude'' \<mapsto> Num (altitude p),
      ''prototype'' \<mapsto> Num (of_int (prototype p)), ''maxview'' \<mapsto> Num (maxview p),
      ''icethickness'' \<mapsto> Num (of_int (icethickness p)),
      ''antennas'' \<mapsto> Num (of_int (antennas p)), ''gain'' \<mapsto> g,
      ''trigger_SNR'' \<mapsto> Num (trigger_SNR p), ''minfreq'' \<mapsto> Num (minfreq p),
      ''maxfreq'' \<mapsto> Num (maxfreq p)]"

text \<open>
  \<^verbatim>\<open>calculate\<close>: the elevation grid is a list (\<^verbatim>\<open>np.atleast_1d\<close> makes a grid of one
  entry of a scalar) and a scalar \<^verbatim>\<open>N\<close> is spread over the grid (the model covers the
  scalars that a 64-bit integer holds); then the loop over
  \<^verbatim>\<open>np.arange(elev.shape[0])\<close>, then the dictionary of arguments, which reads \<^verbatim>\<open>gain\<close>,
  then the result. The noise spectrum, the frequencies, the field parameterisation, the
  exit zenith and the decay altitude are computed by the source and read by nothing that
  reaches the result; they are left out.
\<close>

definition calculate :: "params \<Rightarrow> number list \<Rightarrow> (nat \<Rightarrow> batch) \<Rightarrow> error + EffectiveArea" where
  "calculate p elev sampler =
     (let Ns = trial_array p (length elev) in
      case loop p elev Ns sampler [0..<length elev] (zeros p (length elev)) of
        Inl e \<Rightarrow> Inl e
      | Inr st \<Rightarrow>
          (case l_gain st of
             None \<Rightarrow> Inl UnboundLocalError
           | Some g \<Rightarrow>
               Inr \<lparr>N0 = Ns, elevation = map (degrees \<circ> as_float) elev,
                    effective_area = l_effective_area st, geometric = l_geometric st,
                    pexit = l_pexit st, pdecay = l_pdecay st, ptrigger = l_ptrigger st,
                    args = make_args p g\<rparr>))"

subsection \<open>Quantities the results are compared with\<close>

text \<open>
  The entry of \<^verbatim>\<open>Ag.area * Ag.dot * Pexit * Pdecay\<close> at one trial, a masked entry counting
  as zero: the summand of the effective area before the trigger indicator is applied.
\<close>

definition untriggered :: "batch \<Rightarrow> trial \<Rightarrow> real" where
  "untriggered Ag t = (case Pexit t of None \<Rightarrow> 0 | Some pe \<Rightarrow> area Ag * dot t * pe * Pdecay t)"


section \<open>Example data\<close>

text \<open>
  Six trials as seen from a payload at \<open>(0, 0, 1)\<close>, with the horizon at distance \<open>1\<close> and
  angle \<open>-1/10\<close>. The decay point of \<open>t_side\<close> lies at distance \<open>2\<close> on the payload's
  horizontal (beyond the horizon, not below it); \<open>t_noexit\<close> is the same trial with the exit
  probability masked; \<open>t_hidden\<close> decays straight below the payload at distance \<open>2\<close>
  (beyond and below); \<open>t_above\<close> decays straight above it; \<open>t_near\<close> decays straight below
  at distance \<open>1\<close> (below the horizon angle, not beyond the horizon); \<open>t_dud\<close> has no
  shower energy. The view angle \<open>-770/39\<close> makes the exponent of the intensity zero.
\<close>

definition t_side :: trial where
  "t_side = \<lparr>origin = (2, 0, 0), axis = (0, 0, 1), dot = 1, Pexit = Some (1/2),
     decay_length = 1, Pdecay = 1/2, view = - (770/39), Eshower = 10^9\<rparr>"

definition t_noexit :: trial where "t_noexit = t_side\<lparr>Pexit := None\<rparr>"

definition t_hidden :: trial where "t_hidden = t_side\<lparr>origin := (0, 0, -2)\<rparr>"

definition t_above :: trial where "t_above = t_side\<lparr>origin := (0, 0, 2)\<rparr>"

definition t_near :: trial where "t_near = t_side\<lparr>origin := (0, 0, -1)\<rparr>"

definition t_dud :: trial where
  "t_dud = t_side\<lparr>dot := 0, Pexit := Some 0, Pdecay := 0, Eshower := 0\<rparr>"

definition ex_batch :: batch where
  "ex_batch = \<lparr>trials = [t_side, t_noexit, t_hidden, t_above, t_near], area = 1,
     beacon = (0, 0, 1), gain = Arr [1], horizon_distance = 1, horizon_angle = - (1/10)\<rparr>"

definition ex_small :: batch where "ex_small = ex_batch\<lparr>trials := [t_side, t_dud]\<rparr>"

definition ex_empty :: batch where "ex_empty = ex_batch\<lparr>trials := []\<rparr>"

text \<open>
  A run over three elevation bins: the sampler answers with no trial in the first bin,
  with five trials in the second and with two in the third. \<open>ex_result\<close> is what
  \<^verbatim>\<open>calculate\<close> returns for it, \<open>ex_unreachable\<close> a sampler that never returns a trial.
\<close>

definition ex_sampler :: "nat \<Rightarrow> batch" where
  "ex_sampler i = (if i = 0 then ex_empty else if i = 1 then ex_batch else ex_small)"

definition ex_unreachable :: "nat \<Rightarrow> batch" where
  "ex_unreachable i = ex_empty"

definition ex_params :: params where
  "ex_params = \<lparr>Enu = 10^18, altitude = 4, prototype = 2018, maxview = pi / 60,
     icethickness = 0, N = Array [4, 5, 4], antennas = 4, minfreq = 30, maxfreq = 80,
     trigger_SNR = 5, azimuths = [0]\<rparr>"

definition ex_elev :: "number list" where
  "ex_elev = [Float 0, Float (- (pi / 36)), Float (- (pi / 18))]"

definition ex_result :: EffectiveArea where
  "ex_result = \<lparr>N0 = [4, 5, 4], elevation = [0, -5, -10],
     effective_area = [[0], [1/10], [1/16]], geometric = [0, 1, 1/4],
     pexit = [0, 1/2, 1/4], pdecay = [0, 1/2, 1/4], ptrigger = [0, 3/5, 1/2],
     args = make_args ex_params (Arr [1])\<rparr>"

text \<open>
  A second result on the same grid, up to a difference of \<open>10\<^sup>-\<^sup>6\<close> degrees in one
  elevation; the combination of the two; a result on a shorter grid; two results recorded
  at the altitude \<open>3.87553\<close>; and a file system holding four of them.
\<close>

definition ex_second :: EffectiveArea where
  "ex_second = \<lparr>N0 = [6, 5, 4], elevation = [0, -5 - 1/10^6, -10],
     effective_area = [[0], [3/10], [3/16]], geometric = [0, 1/2, 3/4],
     pexit = [0, 1/4, 1/2], pdecay = [0, 1/4, 3/4], ptrigger = [0, 1/5, 1],
     args = make_args ex_params (Arr [1])\<rparr>"

definition ex_sum :: EffectiveArea where
  "ex_sum = \<lparr>N0 = [10, 10, 8], elevation = [0, -5, -10],
     effective_area = [[0], [1/5], [1/8]], geometric = [0, 3/4, 1/2],
     pexit = [0, 3/8, 3/8], pdecay = [0, 3/8, 1/2], ptrigger = [0, 2/5, 3/4],
     args = make_args ex_params (Arr [1])\<rparr>"

definition ex_short :: EffectiveArea where
  "ex_short = \<lparr>N0 = [6, 5], elevation = [0, -5],
     effective_area = [[0], [3/10]], geometric = [0, 1/2],
     pexit = [0, 1/4], pdecay = [0, 1/4], ptrigger = [0, 1/5],
     args = make_args ex_params (Arr [1])\<rparr>"

definition ex_default_args :: "string \<rightharpoonup> arg_value" where
  "ex_default_args = make_args (ex_params\<lparr>altitude := 387553 / 100000\<rparr>) (Arr [1])"

definition ex_default :: EffectiveArea where
  "ex_default = ex_result\<lparr>args := ex_default_args\<rparr>"

definition ex_default2 :: EffectiveArea where
  "ex_default2 = ex_second\<lparr>args := ex_default_args\<rparr>"

definition ex_fs :: filesystem where
  "ex_fs = [''run1.pkl'' \<mapsto> ex_result, ''run2.pkl'' \<mapsto> ex_second,
            ''default1.pkl'' \<mapsto> ex_default, ''default2.pkl'' \<mapsto> ex_default2]"

text \<open>
  The example run on a grid of integers: the four factors are stored without their
  fractional parts, the effective area as it is.
\<close>

definition ex_int_elev :: "number list" where
  "ex_int_elev = [Integer 0, Integer (- 5), Integer (- 10)]"

definition ex_int_result :: EffectiveArea where
  "ex_int_result = \<lparr>N0 = [4, 5, 4], elevation = map (degrees \<circ> as_float) ex_int_elev,
     effective_area = [[0], [1/10], [1/16]], geometric = [0, 1, 0],
     pexit = [0, 0, 0], pdecay = [0, 0, 0], ptrigger = [0, 0, 0],
     args = make_args ex_params (Arr [1])\<rparr>"

text \<open>
  A result whose first trial count is the largest 64-bit integer, and its combination
  with \<open>ex_second\<close>, whose first trial count has wrapped around.
\<close>

definition ex_full :: EffectiveArea where
  "ex_full = ex_result\<lparr>N0 := [9223372036854775807, 5, 4]\<rparr>"

definition ex_wrapped :: EffectiveArea where
  "ex_wrapped = ex_sum\<lparr>N0 := [9223372036854775813, 10, 8]\<rparr>"

text \<open>
  Two results of two runs at the azimuths 0 and 90 degrees: their dictionaries hold the
  same values, with gain tables of two entries.
\<close>

definition ex_wide_args :: "string \<rightharpoonup> arg_value" where
  "ex_wide_args = make_args (ex_params\<lparr>azimuths := [0, 90]\<rparr>) (Arr [1, 2])"

definition ex_wide1 :: EffectiveArea where
  "ex_wide1 = \<lparr>N0 = [4, 5, 4], elevation = [0, -5, -10],
     effective_area = [[0, 0], [1/10, 1/10], [1/16, 1/16]], geometric = [0, 1, 1/4],
     pexit = [0, 1/2, 1/4], pdecay = [0, 1/2, 1/4], ptrigger = [0, 3/5, 1/2],
     args = ex_wide_args\<rparr>"

definition ex_wide2 :: EffectiveArea where
  "ex_wide2 = \<lparr>N0 = [6, 5, 4], elevation = [0, -5, -10],
     effective_area = [[0, 0], [3/10, 3/10], [3/16, 3/16]], geometric = [0, 1/2, 3/4],
     pexit = [0, 1/4, 1/2], pdecay = [0, 1/4, 3/4], ptrigger = [0, 1/5, 1],
     args = ex_wide_args\<rparr>"

section \<open>Elementwise operations on arrays of one shape\<close>

lemma collect_pure: "collect (map (\<lambda>x. Inr (g x)) xs) = Inr (map g xs)"
  by (induction xs) simp_all

lemma collect_zip_pure:
  "collect (map2 (\<lambda>a b. Inr (g a b)) xs ys) = Inr (map2 g xs ys)"
  using collect_pure [of "\<lambda>(a, b). g a b" "zip xs ys"] by (simp add: case_prod_unfold)

lemma np_add_same_length:
  "length xs = length ys \<Longrightarrow> np_add xs ys = Inr (map2 (+) xs ys)"
  by (simp add: np_add_def broadcast_def collect_zip_pure)

lemma collect_rows:
  "list_all2 (\<lambda>r s. length r = length s) xs ys \<Longrightarrow>
   collect (map2 np_add xs ys) = Inr (map2 (map2 (+)) xs ys)"
  by (induction xs ys rule: list_all2_induct) (simp_all add: np_add_same_length)

lemma rows_same_width:
  "length xs = length ys \<Longrightarrow> list_all (\<lambda>r. length r = m) xs \<Longrightarrow> list_all (\<lambda>r. length r = m) ys \<Longrightarrow>
   list_all2 (\<lambda>r s. length r = length s) xs ys"
  by (induction xs ys rule: list_induct2) simp_all

lemma np_add2_same_shape:
  assumes "length xs = length ys" "list_all (\<lambda>r. length r = m) xs" "list_all (\<lambda>r. length r = m) ys"
  shows "np_add2 xs ys = Inr (map2 (map2 (+)) xs ys)"
  using assms by (simp add: np_add2_def broadcast_def collect_rows rows_same_width)

lemma average_same_length:
  "length xs = length ys \<Longrightarrow> average xs ys = Inr (map2 (\<lambda>a b. (1/2) * (a + b)) xs ys)"
  by (simp add: average_def np_add_same_length map_zip_map case_prod_unfold zip_map_fst_snd) 

lemma average2_same_shape:
  assumes "length xs = length ys" "list_all (\<lambda>r. length r = m) xs" "list_all (\<lambda>r. length r = m) ys"
  shows "average2 xs ys = Inr (map2 (map2 (\<lambda>a b. (1/2) * (a + b))) xs ys)"
  using assms
  by (simp add: average2_def np_add2_same_shape map_zip_map case_prod_unfold)

lemma dict_ne_False: "dict_ne a b = Inr False \<Longrightarrow> a = b"
  by (auto simp: dict_ne_def and_then_def split: if_splits sum.splits)

lemma add_Inr_checks:
  assumes "add A B = Inr C"
  shows "list_all2 isclose (elevation A) (elevation B)" and "dict_ne (args A) (args B) = Inr False"
    and "args A = args B" and "elevation C = elevation A" and "args C = args A"
proof -
  show 1: "list_all2 isclose (elevation A) (elevation B)"
    using assms by (auto simp: add_def split: if_splits)
  show 2: "dict_ne (args A) (args B) = Inr False"
    using assms by (auto simp: add_def and_then_def split: if_splits sum.splits)
  from 2 show "args A = args B"
    by (rule dict_ne_False)
  show "elevation C = elevation A" and "args C = args A"
    using assms by (auto simp: add_def and_then_def split: if_splits sum.splits)
qed

lemma add_well_shaped:
  assumes "well_shaped n m A" "well_shaped n m B"
    and "list_all2 isclose (elevation A) (elevation B)"
    and "dict_ne (args A) (args B) = Inr False"
  shows "add A B = Inr \<lparr>N0 = map2 (+) (N0 A) (N0 B), elevation = elevation A,
      effective_area = map2 (map2 (\<lambda>a b. (1/2) * (a + b))) (effective_area A) (effective_area B),
      geometric = map2 (\<lambda>a b. (1/2) * (a + b)) (geometric A) (geometric B),
      pexit = map2 (\<lambda>a b. (1/2) * (a + b)) (pexit A) (pexit B),
      pdecay = map2 (\<lambda>a b. (1/2) * (a + b)) (pdecay A) (pdecay B),
      ptrigger = map2 (\<lambda>a b. (1/2) * (a + b)) (ptrigger A) (ptrigger B),
      args = args A\<rparr>"
proof -
  have n0: "np_add (N0 A) (N0 B) = Inr (map2 (+) (N0 A) (N0 B))"
    using assms(1,2) by (simp add: well_shaped_def np_add_same_length)
  have ea: "average2 (effective_area A) (effective_area B) =
      Inr (map2 (map2 (\<lambda>a b. (1/2) * (a + b))) (effective_area A) (effective_area B))"
    using assms(1,2) by (intro average2_same_shape [of _ _ m]) (simp_all add: well_shaped_def)
  have g: "average (geometric A) (geometric B) = Inr (map2 (\<lambda>a b. (1/2) * (a + b)) (geometric A) (geometric B))"
    and pe: "average (pexit A) (pexit B) = Inr (map2 (\<lambda>a b. (1/2) * (a + b)) (pexit A) (pexit B))"
    and pd: "average (pdecay A) (pdecay B) = Inr (map2 (\<lambda>a b. (1/2) * (a + b)) (pdecay A) (pdecay B))"
    and pt: "average (ptrigger A) (ptrigger B) = Inr (map2 (\<lambda>a b. (1/2) * (a + b)) (ptrigger A) (ptrigger B))"
    using assms(1,2) by (simp_all add: well_shaped_def average_same_length)
  have len: "length (elevation A) = length (elevation B)"
    using assms(1,2) by (simp add: well_shaped_def)
  show ?thesis
    unfolding add_def using len assms(3,4) by (simp add: and_then_def n0 ea g pe pd pt)
qed

subsection \<open>Exchanging the operands\<close>

lemma zip_flip: "map2 f xs ys = map2 (\<lambda>b a. f a b) ys xs"
  by (induction xs arbitrary: ys) (auto simp: zip_Cons1 split: list.splits) 

lemma broadcast_commute:
  assumes "\<And>a b. f a b = f b a"
  shows "broadcast f xs ys = broadcast f ys xs"
proof -
  have 1: "map2 f xs ys = map2 f ys xs" 
    using zip_flip [of f xs ys] assms by simp
  have 2: "(\<lambda>x. f x a) = f a" for a using assms by auto
  show ?thesis
    unfolding broadcast_def using 1 by (auto simp: 2)
qed

lemma np_add_commute: "np_add xs ys = np_add (ys :: ('a::ab_semigroup_add) list) xs"
  unfolding np_add_def by (rule broadcast_commute) (simp add: add.commute)

lemma np_add2_commute: "np_add2 xs ys = np_add2 ys xs"
  unfolding np_add2_def by (rule broadcast_commute) (rule np_add_commute)

lemma average_commute: "average xs ys = average ys xs"
  by (simp add: average_def np_add_commute [of xs ys])

lemma average2_commute: "average2 xs ys = average2 ys xs"
  by (simp add: average2_def np_add2_commute [of xs ys])

lemma add_commute_fields:
  assumes "add A B = Inr C" and "add B A = Inr C'"
  shows "C' = C\<lparr>elevation := elevation B\<rparr>"
proof -
  note ab = add_Inr_checks [OF assms(1)] and ba = add_Inr_checks [OF assms(2)]
  from assms show ?thesis
    unfolding add_def
    by (auto simp: and_then_def ab(2,3) ba(2) np_add_commute [of "N0 B"]
        average_commute [of "geometric B"] average_commute [of "pexit B"]
        average_commute [of "pdecay B"] average_commute [of "ptrigger B"]
        average2_commute [of "effective_area B"] split: if_splits sum.splits)
qed

section \<open>The loop of \<^verbatim>\<open>calculate\<close>, bin by bin\<close>

lemma loop_body_lengths:
  assumes "loop_body p elev Ns sampler i st = Inr st'"
  shows "length (l_geometric st') = length (l_geometric st)
       \<and> length (l_pexit st') = length (l_pexit st)
       \<and> length (l_pdecay st') = length (l_pdecay st)
       \<and> length (l_ptrigger st') = length (l_ptrigger st)
       \<and> length (l_effective_area st') = length (l_effective_area st)"
  using assms by (auto simp: loop_body_def Let_def split: if_splits)

lemma loop_body_other:
  assumes "loop_body p elev Ns sampler i st = Inr st'" and "k \<noteq> i"
  shows "l_geometric st' ! k = l_geometric st ! k
       \<and> l_pexit st' ! k = l_pexit st ! k
       \<and> l_pdecay st' ! k = l_pdecay st ! k
       \<and> l_ptrigger st' ! k = l_ptrigger st ! k
       \<and> l_effective_area st' ! k = l_effective_area st ! k"
  using assms by (auto simp: loop_body_def Let_def split: if_splits)

lemma loop_body_empty:
  assumes "trials (sampler i) = []" and "i < length Ns"
  shows "loop_body p elev Ns sampler i st = Inr st"
  using assms by (simp add: loop_body_def)

lemma loop_body_empty_same:
  assumes "loop_body p elev Ns sampler i st = Inr st'" and "trials (sampler i) = []"
  shows "st' = st"
  using assms by (auto simp: loop_body_def Let_def split: if_splits)

lemma loop_lengths:
  assumes "loop p elev Ns sampler is st = Inr st'"
  shows "length (l_geometric st') = length (l_geometric st)
       \<and> length (l_pexit st') = length (l_pexit st)
       \<and> length (l_pdecay st') = length (l_pdecay st)
       \<and> length (l_ptrigger st') = length (l_ptrigger st)
       \<and> length (l_effective_area st') = length (l_effective_area st)"
  using assms
proof (induction "is" arbitrary: st)
  case Nil
  then show ?case by simp
next
  case (Cons i "is")
  then obtain st1 where b: "loop_body p elev Ns sampler i st = Inr st1"
    and l: "loop p elev Ns sampler is st1 = Inr st'"
    by (auto split: sum.splits)
  from Cons.IH [OF l] loop_body_lengths [OF b] show ?case by simp
qed

lemma loop_empty_bin:
  assumes "loop p elev Ns sampler is st = Inr st'" and "trials (sampler k) = []"
  shows "l_geometric st' ! k = l_geometric st ! k
       \<and> l_pexit st' ! k = l_pexit st ! k
       \<and> l_pdecay st' ! k = l_pdecay st ! k
       \<and> l_ptrigger st' ! k = l_ptrigger st ! k
       \<and> l_effective_area st' ! k = l_effective_area st ! k"
  using assms
proof (induction "is" arbitrary: st)
  case Nil
  then show ?case by simp
next
  case (Cons i "is")
  then obtain st1 where b: "loop_body p elev Ns sampler i st = Inr st1"
    and l: "loop p elev Ns sampler is st1 = Inr st'"
    by (auto split: sum.splits)
  have "l_geometric st1 ! k = l_geometric st ! k
       \<and> l_pexit st1 ! k = l_pexit st ! k
       \<and> l_pdecay st1 ! k = l_pdecay st ! k
       \<and> l_ptrigger st1 ! k = l_ptrigger st ! k
       \<and> l_effective_area st1 ! k = l_effective_area st ! k"
  proof (cases "k = i")
    case True
    with b Cons.prems(2) have "st1 = st" by (simp add: loop_body_empty_same)
    then show ?thesis by simp
  next
    case False
    then show ?thesis using loop_body_other [OF b] by simp
  qed
  with Cons.IH [OF l Cons.prems(2)] show ?case by simp
qed

lemma loop_untouched:
  assumes "loop p elev Ns sampler is st = Inr st'" and "k \<notin> set is"
  shows "l_geometric st' ! k = l_geometric st ! k
       \<and> l_pexit st' ! k = l_pexit st ! k
       \<and> l_pdecay st' ! k = l_pdecay st ! k
       \<and> l_ptrigger st' ! k = l_ptrigger st ! k
       \<and> l_effective_area st' ! k = l_effective_area st ! k"
  using assms
proof (induction "is" arbitrary: st)
  case Nil
  then show ?case by simp
next
  case (Cons i "is")
  then obtain st1 where b: "loop_body p elev Ns sampler i st = Inr st1"
    and l: "loop p elev Ns sampler is st1 = Inr st'"
    by (auto split: sum.splits)
  from Cons.prems(2) have "k \<noteq> i" "k \<notin> set is" by auto
  with Cons.IH [OF l] loop_body_other [OF b] show ?case by simp
qed

lemma loop_body_written:
  assumes "loop_body p elev Ns sampler i st = Inr st'" and "trials (sampler i) \<noteq> []"
    and "i < length (l_geometric st)" "i < length (l_pexit st)" "i < length (l_pdecay st)"
    "i < length (l_ptrigger st)" "i < length (l_effective_area st)"
  shows "l_geometric st' ! i = stored elev (bin_geometric (real_of_int (sint (Ns ! i))) (sampler i))
       \<and> l_pexit st' ! i = stored elev (bin_pexit (sampler i))
       \<and> l_pdecay st' ! i = stored elev (bin_pdecay (sampler i))
       \<and> l_ptrigger st' ! i = stored elev (bin_ptrigger (sampler i))
       \<and> l_effective_area st' ! i =
           replicate (length (azimuths p)) (bin_effective_area (real_of_int (sint (Ns ! i))) (sampler i))"
  using assms by (auto simp: loop_body_def Let_def split: if_splits)

lemma loop_written_bin:
  assumes "loop p elev Ns sampler is st = Inr st'" and "trials (sampler k) \<noteq> []"
    and "k \<in> set is" and "distinct is"
    and "k < length (l_geometric st)" "k < length (l_pexit st)" "k < length (l_pdecay st)"
    "k < length (l_ptrigger st)" "k < length (l_effective_area st)"
  shows "l_geometric st' ! k = stored elev (bin_geometric (real_of_int (sint (Ns ! k))) (sampler k))
       \<and> l_pexit st' ! k = stored elev (bin_pexit (sampler k))
       \<and> l_pdecay st' ! k = stored elev (bin_pdecay (sampler k))
       \<and> l_ptrigger st' ! k = stored elev (bin_ptrigger (sampler k))
       \<and> l_effective_area st' ! k =
           replicate (length (azimuths p)) (bin_effective_area (real_of_int (sint (Ns ! k))) (sampler k))"
  using assms
proof (induction "is" arbitrary: st)
  case Nil
  then show ?case by simp
next
  case (Cons i "is")
  then obtain st1 where b: "loop_body p elev Ns sampler i st = Inr st1"
    and l: "loop p elev Ns sampler is st1 = Inr st'"
    by (auto split: sum.splits)
  note len = loop_body_lengths [OF b]
  show ?case
  proof (cases "k = i")
    case True
    with Cons.prems(4) have "k \<notin> set is" by simp
    from loop_untouched [OF l this] loop_body_written [OF b] Cons.prems True
    show ?thesis by simp
  next
    case False
    with Cons.prems have "k \<in> set is" "distinct is" by auto
    from Cons.IH [OF l Cons.prems(2) this] len Cons.prems show ?thesis by simp
  qed
qed


lemma loop_all_empty:
  assumes "\<forall>i \<in> set is. i < length Ns \<and> trials (sampler i) = []"
  shows "loop p elev Ns sampler is st = Inr st"
  using assms by (induction "is") (simp_all add: loop_body_empty)

lemma loop_indices:
  assumes "loop p elev Ns sampler is st = Inr st'"
  shows "\<forall>i \<in> set is. i < length Ns"
  using assms
proof (induction "is" arbitrary: st)
  case Nil
  then show ?case by simp
next
  case (Cons i "is")
  then obtain st1 where b: "loop_body p elev Ns sampler i st = Inr st1"
    and l: "loop p elev Ns sampler is st1 = Inr st'"
    by (auto split: sum.splits)
  from b have "i < length Ns"
    by (auto simp: loop_body_def split: if_splits)
  with Cons.IH [OF l] show ?case by simp
qed

subsection \<open>What \<^verbatim>\<open>calculate\<close> stores in a bin\<close>

lemma zeros_lengths:
  "length (l_geometric (zeros p n)) = n" "length (l_pexit (zeros p n)) = n"
  "length (l_pdecay (zeros p n)) = n" "length (l_ptrigger (zeros p n)) = n"
  "length (l_effective_area (zeros p n)) = n"
  by (simp_all add: zeros_def)

lemma zeros_entries:
  assumes "i < n"
  shows "l_geometric (zeros p n) ! i = 0" "l_pexit (zeros p n) ! i = 0"
    "l_pdecay (zeros p n) ! i = 0" "l_ptrigger (zeros p n) ! i = 0"
    "l_effective_area (zeros p n) ! i = replicate (length (azimuths p)) 0"
  using assms by (simp_all add: zeros_def)

lemma calculate_Inr:
  assumes "calculate p elev sampler = Inr r"
  obtains st g where
    "loop p elev (trial_array p (length elev)) sampler [0..<length elev] (zeros p (length elev)) = Inr st"
    and "l_gain st = Some g"
    and "r = \<lparr>N0 = trial_array p (length elev), elevation = map (degrees \<circ> as_float) elev,
               effective_area = l_effective_area st, geometric = l_geometric st,
               pexit = l_pexit st, pdecay = l_pdecay st, ptrigger = l_ptrigger st,
               args = make_args p g\<rparr>"
  using assms unfolding calculate_def Let_def
  by (auto split: sum.splits option.splits)

lemma calculate_empty_bin:
  assumes "calculate p elev sampler = Inr r" and "i < length elev"
    and "trials (sampler i) = []"
  shows "geometric r ! i = 0 \<and> pexit r ! i = 0 \<and> pdecay r ! i = 0 \<and> ptrigger r ! i = 0
       \<and> effective_area r ! i = replicate (length (azimuths p)) 0"
proof -
  from assms(1) obtain st g where
    l: "loop p elev (trial_array p (length elev)) sampler [0..<length elev] (zeros p (length elev)) = Inr st"
    and r: "r = \<lparr>N0 = trial_array p (length elev), elevation = map (degrees \<circ> as_float) elev,
               effective_area = l_effective_area st, geometric = l_geometric st,
               pexit = l_pexit st, pdecay = l_pdecay st, ptrigger = l_ptrigger st,
               args = make_args p g\<rparr>"
    by (rule calculate_Inr)
  from loop_empty_bin [OF l assms(3)] zeros_entries [OF assms(2), of p] r
  show ?thesis by simp
qed

lemma calculate_nonempty_bin:
  assumes "calculate p elev sampler = Inr r" and "i < length elev"
    and "trials (sampler i) \<noteq> []"
  shows "geometric r ! i = stored elev (bin_geometric (real_of_int (sint (N0 r ! i))) (sampler i))
       \<and> pexit r ! i = stored elev (bin_pexit (sampler i))
       \<and> pdecay r ! i = stored elev (bin_pdecay (sampler i))
       \<and> ptrigger r ! i = stored elev (bin_ptrigger (sampler i))
       \<and> effective_area r ! i =
           replicate (length (azimuths p)) (bin_effective_area (real_of_int (sint (N0 r ! i))) (sampler i))"
proof -
  from assms(1) obtain st g where
    l: "loop p elev (trial_array p (length elev)) sampler [0..<length elev] (zeros p (length elev)) = Inr st"
    and r: "r = \<lparr>N0 = trial_array p (length elev), elevation = map (degrees \<circ> as_float) elev,
               effective_area = l_effective_area st, geometric = l_geometric st,
               pexit = l_pexit st, pdecay = l_pdecay st, ptrigger = l_ptrigger st,
               args = make_args p g\<rparr>"
    by (rule calculate_Inr)
  have "i \<in> set [0..<length elev]" "distinct [0..<length elev]"
    using assms(2) by simp_all
  from loop_written_bin [OF l assms(3) this] assms(2) r
  show ?thesis by (simp add: zeros_lengths)
qed

lemma calculate_all_empty:
  assumes "\<forall>i < length elev. trials (sampler i) = []"
    and "length elev \<le> length (trial_array p (length elev))"
  shows "calculate p elev sampler = Inl UnboundLocalError"
proof -
  have "\<forall>i \<in> set [0..<length elev].
      i < length (trial_array p (length elev)) \<and> trials (sampler i) = []"
    using assms by auto
  then have "loop p elev (trial_array p (length elev)) sampler [0..<length elev] (zeros p (length elev))
      = Inr (zeros p (length elev))"
    by (rule loop_all_empty)
  then show ?thesis
    by (simp add: calculate_def zeros_def)
qed

lemma calculate_N0_length:
  assumes "calculate p elev sampler = Inr r" and "i < length elev"
  shows "i < length (N0 r)"
proof -
  from assms(1) obtain st g where
    l: "loop p elev (trial_array p (length elev)) sampler [0..<length elev] (zeros p (length elev)) = Inr st"
    and r: "r = \<lparr>N0 = trial_array p (length elev), elevation = map (degrees \<circ> as_float) elev,
               effective_area = l_effective_area st, geometric = l_geometric st,
               pexit = l_pexit st, pdecay = l_pdecay st, ptrigger = l_ptrigger st,
               args = make_args p g\<rparr>"
    by (rule calculate_Inr)
  from loop_indices [OF l] assms(2) r show ?thesis by simp
qed

subsection \<open>Sums and means over masked entries\<close>

lemma unmasked_map_option: "unmasked (map (map_option f) xs) = map f (unmasked xs)"
  by (induction xs rule: unmasked.induct) simp_all

lemma sum_unmasked:
  "sum_list (unmasked (map g ts)) = sum_list (map (\<lambda>t. case g t of None \<Rightarrow> 0 | Some (x::real) \<Rightarrow> x) ts)"
  by (induction ts) (simp_all split: option.splits)


lemma sum_list_mono_real:
  "(\<And>t. t \<in> set ts \<Longrightarrow> f t \<le> (g t :: real)) \<Longrightarrow> sum_list (map f ts) \<le> sum_list (map g ts)"
  by (induction ts) (simp_all add: add_mono)


lemma ma_sum_case:
  "ma_sum (map f ts) = sum_list (map (\<lambda>t. case f t of None \<Rightarrow> 0 | Some x \<Rightarrow> x) ts)"
  by (simp add: ma_sum_def sum_unmasked)

lemma weighted_bounds:
  assumes "0 \<le> area Ag" and "0 \<le> dot t" and "0 \<le> Pdecay t" and "Pdecay t \<le> 1"
    and "\<forall>pe. Pexit t = Some pe \<longrightarrow> 0 \<le> pe \<and> pe \<le> 1"
  shows "(case weighted Ag t of None \<Rightarrow> 0 | Some x \<Rightarrow> x)
           \<le> (case Pexit t of None \<Rightarrow> 0 | Some pe \<Rightarrow> area Ag * dot t * pe * Pdecay t)"
    and "(case Pexit t of None \<Rightarrow> 0 | Some pe \<Rightarrow> area Ag * dot t * pe * Pdecay t) \<le> area Ag * dot t"
proof -
  show "(case weighted Ag t of None \<Rightarrow> 0 | Some x \<Rightarrow> x)
           \<le> (case Pexit t of None \<Rightarrow> 0 | Some pe \<Rightarrow> area Ag * dot t * pe * Pdecay t)"
    using assms by (cases "Pexit t") (auto simp: weighted_def)
  show "(case Pexit t of None \<Rightarrow> 0 | Some pe \<Rightarrow> area Ag * dot t * pe * Pdecay t) \<le> area Ag * dot t"
  proof (cases "Pexit t")
    case None
    with assms show ?thesis by simp
  next
    case (Some pe)
    with assms have pe: "0 \<le> pe" "pe \<le> 1" by auto
    have "pe * Pdecay t \<le> 1 * 1"
      using pe assms(3,4) by (intro mult_mono) simp_all
    moreover have "0 \<le> area Ag * dot t" using assms by simp
    ultimately have "(area Ag * dot t) * (pe * Pdecay t) \<le> (area Ag * dot t) * 1"
      by (intro mult_left_mono) simp_all
    with Some show ?thesis by (simp add: mult.assoc)
  qed
qed

lemma Ptrig_iff:
  "Ptrig Ag t \<longleftrightarrow> raw_trigger t \<and> \<not> invisible Ag t \<and> \<not> theta Ag t > 0"
  by (simp add: Ptrig_def)

section \<open>The loop of \<^verbatim>\<open>from_files\<close>\<close>

lemma from_files_loop_filter:
  assumes "list_all2 (\<lambda>f A. fs f = Some A) names As"
    and "list_all (\<lambda>A. args A ''altitude'' \<noteq> None) As"
  shows "from_files_loop fs Aeff names =
    add_all Aeff (filter (\<lambda>A. args A ''altitude'' \<noteq> Some (Num (387553 / 100000))) As)"
  using assms
proof (induction names As arbitrary: Aeff rule: list_all2_induct)
  case Nil
  then show ?case by simp
next
  case (Cons f names A As)
  from Cons.prems obtain alt where alt: "args A ''altitude'' = Some alt"
    by auto
  from Cons.prems have rest: "list_all (\<lambda>A. args A ''altitude'' \<noteq> None) As"
    by simp
  show ?case
  proof (cases "alt = Num (387553 / 100000)")
    case True
    with Cons.hyps(1) alt Cons.IH [OF rest] show ?thesis
      by (simp add: from_file_def)
  next
    case False
    with Cons.hyps(1) alt Cons.IH [OF rest] show ?thesis
      by (simp add: from_file_def split: sum.splits)
  qed
qed

section \<open>Evaluating the examples\<close>

lemmas ex_trial_defs = t_side_def t_noexit_def t_hidden_def t_above_def t_near_def t_dud_def

lemma ex_raw_trigger:
  "raw_trigger t_side" "raw_trigger t_noexit" "raw_trigger t_hidden" "raw_trigger t_above"
  "raw_trigger t_near" "\<not> raw_trigger t_dud"
  by (simp_all add: raw_trigger_def intensity_def ex_trial_defs)

lemma ex_theta:
  assumes "beacon Ag = (0, 0, 1)"
  shows "theta Ag t_side = 0" "theta Ag t_noexit = 0" "theta Ag t_dud = 0"
    "theta Ag t_hidden = - (pi / 2)" "theta Ag t_near = - (pi / 2)" "theta Ag t_above = pi / 2"
  by (simp_all add: theta_def viewdot_def v_def decay_point_def assms ex_trial_defs)

lemma ex_D:
  assumes "beacon Ag = (0, 0, 1)"
  shows "D Ag t_side = 2" "D Ag t_noexit = 2" "D Ag t_dud = 2"
    "D Ag t_hidden = 2" "D Ag t_near = 1" "D Ag t_above = 2"
  by (simp_all add: D_def v_def decay_point_def assms ex_trial_defs)

lemma ex_invisible:
  assumes "beacon Ag = (0, 0, 1)" "horizon_distance Ag = 1" "horizon_angle Ag = - (1/10)"
  shows "\<not> invisible Ag t_side" "\<not> invisible Ag t_noexit" "\<not> invisible Ag t_dud"
    "invisible Ag t_hidden" "\<not> invisible Ag t_near" "\<not> invisible Ag t_above"
  using pi_ge_two
  by (simp_all add: invisible_def beyond_def below_def ex_D ex_theta assms)

lemma ex_Ptrig:
  assumes "beacon Ag = (0, 0, 1)" "horizon_distance Ag = 1" "horizon_angle Ag = - (1/10)"
  shows "Ptrig Ag t_side" "Ptrig Ag t_noexit" "\<not> Ptrig Ag t_dud"
    "\<not> Ptrig Ag t_hidden" "Ptrig Ag t_near" "\<not> Ptrig Ag t_above"
  by (simp_all add: Ptrig_def ex_raw_trigger ex_invisible ex_theta assms)

lemma ex_batch_site:
  "beacon ex_batch = (0, 0, 1)" "horizon_distance ex_batch = 1" "horizon_angle ex_batch = - (1/10)"
  "area ex_batch = 1" "gain ex_batch = Arr [1]"
  "trials ex_batch = [t_side, t_noexit, t_hidden, t_above, t_near]"
  by (simp_all add: ex_batch_def)

lemma ex_small_site:
  "beacon ex_small = (0, 0, 1)" "horizon_distance ex_small = 1" "horizon_angle ex_small = - (1/10)"
  "area ex_small = 1" "gain ex_small = Arr [1]"
  "trials ex_small = [t_side, t_dud]"
  by (simp_all add: ex_small_def ex_batch_def)

lemmas ex_batch_Ptrig = ex_Ptrig [OF ex_batch_site(1-3)]
lemmas ex_small_Ptrig = ex_Ptrig [OF ex_small_site(1-3)]

lemma ex_trial_fields:
  "dot t_side = 1" "dot t_noexit = 1" "dot t_hidden = 1" "dot t_above = 1" "dot t_near = 1" "dot t_dud = 0"
  "Pexit t_side = Some (1/2)" "Pexit t_noexit = None" "Pexit t_hidden = Some (1/2)"
  "Pexit t_above = Some (1/2)" "Pexit t_near = Some (1/2)" "Pexit t_dud = Some 0"
  "Pdecay t_side = 1/2" "Pdecay t_noexit = 1/2" "Pdecay t_hidden = 1/2"
  "Pdecay t_above = 1/2" "Pdecay t_near = 1/2" "Pdecay t_dud = 0"
  by (simp_all add: ex_trial_defs)

lemma ex_batch_values:
  "bin_geometric 5 ex_batch = 1" "bin_pexit ex_batch = 1/2" "bin_pdecay ex_batch = 1/2"
  "bin_ptrigger ex_batch = 3/5" "bin_effective_area 5 ex_batch = 1/10"
  by (simp_all add: bin_geometric_def bin_pexit_def bin_pdecay_def bin_ptrigger_def
      bin_effective_area_def ma_mean_def ma_sum_def mean_def weighted_def
      ex_batch_site ex_batch_Ptrig ex_trial_fields)

lemma ex_small_values:
  "bin_geometric 4 ex_small = 1/4" "bin_pexit ex_small = 1/4" "bin_pdecay ex_small = 1/4"
  "bin_ptrigger ex_small = 1/2" "bin_effective_area 4 ex_small = 1/16"
  by (simp_all add: bin_geometric_def bin_pexit_def bin_pdecay_def bin_ptrigger_def
      bin_effective_area_def ma_mean_def ma_sum_def mean_def weighted_def
      ex_small_site ex_small_Ptrig ex_trial_fields)

lemma ex_sampler_simps:
  "ex_sampler 0 = ex_empty" "ex_sampler (Suc 0) = ex_batch" "ex_sampler 1 = ex_batch"
  "ex_sampler 2 = ex_small"
  by (simp_all add: ex_sampler_def)

lemma upt_3: "[0..<3] = [0, Suc 0, 2]"
  by (simp add: upt_rec)

lemma ex_calculate: "calculate ex_params ex_elev ex_sampler = Inr ex_result"
proof -
  have Ns: "trial_array ex_params 3 = [4, 5, 4]"
    by (simp add: trial_array_def ex_params_def)
  have az: "azimuths ex_params = [0]"
    by (simp add: ex_params_def)
  have s: "ex_sampler 0 = ex_empty" "ex_sampler (Suc 0) = ex_batch" "ex_sampler 2 = ex_small"
    by (simp_all add: ex_sampler_def)
  have e: "trials ex_empty = []"
    by (simp add: ex_empty_def)
  have len: "length ex_elev = 3"
    by (simp add: ex_elev_def)
  have deg: "map (degrees \<circ> as_float) ex_elev = [0, -5, -10]"
    by (simp add: ex_elev_def degrees_def)
  have st: "stored ex_elev x = x" for x
    by (simp add: stored_def integer_grid_def ex_elev_def)
  have l: "loop ex_params ex_elev [4, 5, 4] ex_sampler [0, Suc 0, 2] (zeros ex_params 3) =
    Inr \<lparr>l_effective_area = [[0], [1/10], [1/16]], l_geometric = [0, 1, 1/4],
         l_pexit = [0, 1/2, 1/4], l_pdecay = [0, 1/2, 1/4], l_ptrigger = [0, 3/5, 1/2],
         l_gain = Some (Arr [1])\<rparr>"
    by (simp add: loop_body_def s e az st zeros_def ex_batch_site ex_small_site
        ex_batch_values ex_small_values)
       (simp add: numeral_3_eq_3 numeral_2_eq_2)
  show ?thesis
    by (simp add: calculate_def len Ns upt_3 Let_def l deg ex_result_def del: loop.simps)
qed

lemma ex_shapes:
  "well_shaped 3 1 ex_result" "well_shaped 3 1 ex_second" "well_shaped 2 1 ex_short"
  "well_shaped 3 1 ex_default" "well_shaped 3 1 ex_default2"
  by (simp_all add: well_shaped_def ex_result_def ex_second_def ex_short_def ex_default_def
      ex_default2_def)

lemma ex_close:
  "list_all2 isclose (elevation ex_result) (elevation ex_second)"
  "list_all2 isclose (elevation ex_second) (elevation ex_result)"
  by (simp_all add: isclose_def ex_result_def ex_second_def)

lemma ex_args:
  "args ex_result = make_args ex_params (Arr [1])" "args ex_second = make_args ex_params (Arr [1])"
  "args ex_short = make_args ex_params (Arr [1])"
  "args ex_default = ex_default_args" "args ex_default2 = ex_default_args"
  by (simp_all add: ex_result_def ex_second_def ex_short_def ex_default_def ex_default2_def)

lemma ex_altitude:
  "make_args ex_params (Arr [1]) ''altitude'' = Some (Num 4)"
  "ex_default_args ''altitude'' = Some (Num (387553 / 100000))"
  by (simp_all add: make_args_def ex_default_args_def ex_params_def)

lemma dict_ne_one_entry:
  "dict_ne (make_args p (Arr [g])) (make_args p (Arr [g])) = Inr False"
  by (simp add: dict_ne_def arg_keys_def make_args_def and_then_def broadcast_def)

lemma dict_ne_more_entries:
  assumes "length gs \<noteq> 1"
  shows "dict_ne (make_args p (Arr gs)) (make_args p (Arr gs)) = Inl AmbiguousTruthValue"
proof -
  have "truth (map2 (=) gs gs) = Inl AmbiguousTruthValue"
  proof (cases gs)
    case Nil
    then show ?thesis by simp
  next
    case (Cons x xs)
    with assms obtain y ys where "xs = y # ys"
      by (cases xs) auto
    with Cons show ?thesis by simp
  qed
  then show ?thesis
    by (simp add: dict_ne_def arg_keys_def make_args_def and_then_def broadcast_def
        collect_zip_pure)
qed

lemma ex_dict_ne:
  "dict_ne (make_args ex_params (Arr [1])) (make_args ex_params (Arr [1])) = Inr False"
  "dict_ne ex_default_args ex_default_args = Inr False"
  unfolding ex_default_args_def by (rule dict_ne_one_entry)+

lemma ex_args_differ: "make_args ex_params (Arr [1]) \<noteq> ex_default_args"
proof
  assume "make_args ex_params (Arr [1]) = ex_default_args"
  then have "make_args ex_params (Arr [1]) ''altitude'' = ex_default_args ''altitude''"
    by simp
  then show False
    by (simp add: ex_altitude)
qed

lemma ex_add: "add ex_result ex_second = Inr ex_sum"
  using add_well_shaped [OF ex_shapes(1,2) ex_close(1)]
  by (simp add: ex_args ex_dict_ne) (simp add: ex_result_def ex_second_def ex_sum_def)

lemma ex_add_flipped: "add ex_second ex_result = Inr (ex_sum\<lparr>elevation := [0, -5 - 1/10^6, -10]\<rparr>)"
  using add_well_shaped [OF ex_shapes(2,1) ex_close(2)]
  by (simp add: ex_args ex_dict_ne) (simp add: ex_result_def ex_second_def ex_sum_def)

lemma ex_fs_lookup:
  "ex_fs ''run1.pkl'' = Some ex_result" "ex_fs ''run2.pkl'' = Some ex_second"
  "ex_fs ''default1.pkl'' = Some ex_default" "ex_fs ''default2.pkl'' = Some ex_default2"
  by (simp_all add: ex_fs_def)

lemma ex_file_altitudes:
  "args ex_result ''altitude'' = Some (Num 4)" "args ex_second ''altitude'' = Some (Num 4)"
  "args ex_default ''altitude'' = Some (Num (387553 / 100000))"
  "args ex_default2 ''altitude'' = Some (Num (387553 / 100000))"
  by (simp_all add: ex_args ex_altitude)

section \<open>Further facts about the model\<close>

lemma sint_sum_in_range:
  fixes a b :: "64 word"
  assumes "- (2^63) \<le> sint a + sint b" and "sint a + sint b < 2^63"
  shows "sint (a + b) = sint a + sint b"
proof -
  have "sint (a + b) = signed_take_bit 63 (sint a + sint b)"
    by (simp add: sint_word_ariths)
  also have "\<dots> = sint a + sint b"
    using assms by (intro signed_take_bit_int_eq_self) simp_all
  finally show ?thesis .
qed

lemma stored_float: "\<not> integer_grid elev \<Longrightarrow> stored elev x = x"
  by (simp add: stored_def)

lemma stored_integer: "integer_grid elev \<Longrightarrow> stored elev x = of_int (drop_fraction x)"
  by (simp add: stored_def)

subsection \<open>When \<^verbatim>\<open>calculate\<close> returns\<close>



subsection \<open>Combining a list of results of one shape\<close>

lemma add_Inr_shape:
  assumes "add A B = Inr C" and "well_shaped n m A" and "well_shaped n m B"
  shows "well_shaped n m C" and "\<forall>i < n. N0 C ! i = N0 A ! i + N0 B ! i"
proof -
  note c = add_Inr_checks [OF assms(1)]
  from add_well_shaped [OF assms(2,3) c(1,2)] assms(1)
  have C: "C = \<lparr>N0 = map2 (+) (N0 A) (N0 B), elevation = elevation A,
      effective_area = map2 (map2 (\<lambda>a b. (1/2) * (a + b))) (effective_area A) (effective_area B),
      geometric = map2 (\<lambda>a b. (1/2) * (a + b)) (geometric A) (geometric B),
      pexit = map2 (\<lambda>a b. (1/2) * (a + b)) (pexit A) (pexit B),
      pdecay = map2 (\<lambda>a b. (1/2) * (a + b)) (pdecay A) (pdecay B),
      ptrigger = map2 (\<lambda>a b. (1/2) * (a + b)) (ptrigger A) (ptrigger B),
      args = args A\<rparr>"
    by simp
  have rows: "length (effective_area A ! i) = m" "length (effective_area B ! i) = m" if "i < n" for i
    using assms(2,3) that by (simp_all add: well_shaped_def list_all_length)
  show "well_shaped n m C"
    unfolding C using assms(2,3) rows by (simp add: well_shaped_def list_all_length)
  show "\<forall>i < n. N0 C ! i = N0 A ! i + N0 B ! i"
    unfolding C using assms(2,3) by (simp add: well_shaped_def)
qed

lemma add_all_counts:
  assumes "add_all A Bs = Inr R" and "well_shaped n m A" and "list_all (well_shaped n m) Bs"
  shows "well_shaped n m R \<and> elevation R = elevation A \<and> args R = args A
       \<and> (\<forall>i < n. N0 R ! i = N0 A ! i + sum_list (map (\<lambda>B. N0 B ! i) Bs))"
  using assms
proof (induction Bs arbitrary: A)
  case Nil
  then show ?case by simp
next
  case (Cons B Bs)
  then obtain S where S: "add A B = Inr S" and rest: "add_all S Bs = Inr R"
    by (auto split: sum.splits)
  from Cons.prems have B: "well_shaped n m B" and Bs: "list_all (well_shaped n m) Bs"
    by simp_all
  note sh = add_Inr_shape [OF S Cons.prems(2) B] and ch = add_Inr_checks [OF S]
  from Cons.IH [OF rest sh(1) Bs] sh(2) ch(4,5) show ?case
    by (simp add: add.assoc)
qed

subsection \<open>More evaluations of the examples\<close>

lemma ex_int_calculate: "calculate ex_params ex_int_elev ex_sampler = Inr ex_int_result"
proof -
  have Ns: "trial_array ex_params 3 = [4, 5, 4]"
    by (simp add: trial_array_def ex_params_def)
  have az: "azimuths ex_params = [0]"
    by (simp add: ex_params_def)
  have s: "ex_sampler 0 = ex_empty" "ex_sampler (Suc 0) = ex_batch" "ex_sampler 2 = ex_small"
    by (simp_all add: ex_sampler_def)
  have e: "trials ex_empty = []"
    by (simp add: ex_empty_def)
  have len: "length ex_int_elev = 3"
    by (simp add: ex_int_elev_def)
  have st: "stored ex_int_elev x = of_int (drop_fraction x)" for x
    by (simp add: stored_def integer_grid_def ex_int_elev_def)
  have tr: "drop_fraction 1 = 1" "drop_fraction (1/2) = 0" "drop_fraction (3/5) = 0" "drop_fraction (1/4) = 0"
    by (simp_all add: drop_fraction_def)
  have l: "loop ex_params ex_int_elev [4, 5, 4] ex_sampler [0, Suc 0, 2] (zeros ex_params 3) =
    Inr \<lparr>l_effective_area = [[0], [1/10], [1/16]], l_geometric = [0, 1, 0],
         l_pexit = [0, 0, 0], l_pdecay = [0, 0, 0], l_ptrigger = [0, 0, 0],
         l_gain = Some (Arr [1])\<rparr>"
    by (simp add: loop_body_def s e az st tr zeros_def ex_batch_site ex_small_site
        ex_batch_values ex_small_values)
       (simp add: numeral_3_eq_3 numeral_2_eq_2)
  show ?thesis
    by (simp add: calculate_def len Ns upt_3 Let_def l ex_int_result_def del: loop.simps)
qed

lemma ex_wide:
  "well_shaped 3 2 ex_wide1" "well_shaped 3 2 ex_wide2"
  "list_all2 isclose (elevation ex_wide1) (elevation ex_wide2)"
  "args ex_wide1 = ex_wide_args" "args ex_wide2 = ex_wide_args"
  "dict_ne ex_wide_args ex_wide_args = Inl AmbiguousTruthValue"
proof -
  show "well_shaped 3 2 ex_wide1" "well_shaped 3 2 ex_wide2"
    by (simp_all add: well_shaped_def ex_wide1_def ex_wide2_def)
  show "list_all2 isclose (elevation ex_wide1) (elevation ex_wide2)"
    by (simp add: isclose_def ex_wide1_def ex_wide2_def)
  show "args ex_wide1 = ex_wide_args" "args ex_wide2 = ex_wide_args"
    by (simp_all add: ex_wide1_def ex_wide2_def)
  show "dict_ne ex_wide_args ex_wide_args = Inl AmbiguousTruthValue"
    unfolding ex_wide_args_def by (rule dict_ne_more_entries) simp
qed

lemma ex_full_add: "add ex_full ex_second = Inr ex_wrapped"
proof -
  have sh: "well_shaped 3 1 ex_full"
    using ex_shapes(1) by (simp add: well_shaped_def ex_full_def)
  have c: "list_all2 isclose (elevation ex_full) (elevation ex_second)"
    using ex_close(1) by (simp add: ex_full_def)
  from add_well_shaped [OF sh ex_shapes(2) c] show ?thesis
    by (simp add: ex_full_def ex_args ex_dict_ne)
       (simp add: ex_result_def ex_second_def ex_sum_def ex_wrapped_def)
qed

subsection \<open>Stored values and trial counts\<close>

lemma drop_fraction_mono:
  assumes "x \<le> y"
  shows "drop_fraction x \<le> drop_fraction y"
proof (cases "0 \<le> x")
  case True
  with assms have "0 \<le> y" by simp
  with True assms show ?thesis
    by (simp add: drop_fraction_def floor_mono)
next
  case False
  show ?thesis
  proof (cases "0 \<le> y")
    case True
    from False have "\<lceil>x\<rceil> \<le> 0" by (simp add: ceiling_le_iff)
    moreover from True have "0 \<le> \<lfloor>y\<rfloor>" by simp
    ultimately have "\<lceil>x\<rceil> \<le> \<lfloor>y\<rfloor>" by (rule order_trans)
    then show ?thesis
      unfolding drop_fraction_def if_not_P [OF False] if_P [OF True] .
  next
    case y: False
    with False assms show ?thesis
      by (simp add: drop_fraction_def ceiling_mono)
  qed
qed

lemma stored_mono: "x \<le> y \<Longrightarrow> stored elev x \<le> stored elev y"
  by (simp add: stored_def drop_fraction_mono)

lemma stored_zero: "stored elev 0 = 0"
  by (simp add: stored_def drop_fraction_def)


section \<open>Combining two results\<close>

text \<open>
  Claim C3 as stated fails where the sum of two trial counts leaves the range of a 64-bit
  integer: the combination holds the sum wrapped around, here a negative number.
\<close>

theorem add_trial_counts_wrap:
  "add ex_full ex_second = Inr ex_wrapped
   \<and> sint (N0 ex_full ! 0) = 9223372036854775807 \<and> sint (N0 ex_second ! 0) = 6
   \<and> sint (N0 ex_wrapped ! 0) = - 9223372036854775803
   \<and> sint (N0 ex_wrapped ! 0) \<noteq> sint (N0 ex_full ! 0) + sint (N0 ex_second ! 0)"
  by (simp add: ex_full_add) (simp add: ex_full_def ex_second_def ex_wrapped_def)

text \<open>
  Claim C3, amended. For two results of one shape (\<open>n\<close> elevation bins, \<open>m\<close> azimuth bins)
  whose elevation grids are numerically close and whose \<^verbatim>\<open>args\<close> the comparison finds
  equal, the combination succeeds and has the same shape. In every bin its trial count is
  the 64-bit sum of the two trial counts, which is their sum whenever that lies in the
  range of a 64-bit integer; and the geometric area, the three probabilities and every
  entry of the effective area are half the sum of the two inputs: the plain mean, in
  which the trial counts play no part.
\<close>

theorem add_sums_trials_and_averages:
  assumes "well_shaped n m A" and "well_shaped n m B"
    and "list_all2 isclose (elevation A) (elevation B)"
    and "dict_ne (args A) (args B) = Inr False"
  shows "\<exists>C. add A B = Inr C \<and> well_shaped n m C
     \<and> (\<forall>i < n.
          N0 C ! i = N0 A ! i + N0 B ! i
        \<and> (- (2^63) \<le> sint (N0 A ! i) + sint (N0 B ! i) \<and> sint (N0 A ! i) + sint (N0 B ! i) < 2^63
             \<longrightarrow> sint (N0 C ! i) = sint (N0 A ! i) + sint (N0 B ! i))
        \<and> geometric C ! i = (1/2) * (geometric A ! i + geometric B ! i)
        \<and> pexit C ! i = (1/2) * (pexit A ! i + pexit B ! i)
        \<and> pdecay C ! i = (1/2) * (pdecay A ! i + pdecay B ! i)
        \<and> ptrigger C ! i = (1/2) * (ptrigger A ! i + ptrigger B ! i)
        \<and> (\<forall>j < m. effective_area C ! i ! j
               = (1/2) * (effective_area A ! i ! j + effective_area B ! i ! j)))"
proof -
  let ?C = "\<lparr>N0 = map2 (+) (N0 A) (N0 B), elevation = elevation A,
      effective_area = map2 (map2 (\<lambda>a b. (1/2) * (a + b))) (effective_area A) (effective_area B),
      geometric = map2 (\<lambda>a b. (1/2) * (a + b)) (geometric A) (geometric B),
      pexit = map2 (\<lambda>a b. (1/2) * (a + b)) (pexit A) (pexit B),
      pdecay = map2 (\<lambda>a b. (1/2) * (a + b)) (pdecay A) (pdecay B),
      ptrigger = map2 (\<lambda>a b. (1/2) * (a + b)) (ptrigger A) (ptrigger B),
      args = args A\<rparr>"
  have eq: "add A B = Inr ?C"
    using assms by (rule add_well_shaped)
  have rowsA: "length (effective_area A ! i) = m" if "i < n" for i
    using assms(1) that by (simp add: well_shaped_def list_all_length)
  have rowsB: "length (effective_area B ! i) = m" if "i < n" for i
    using assms(2) that by (simp add: well_shaped_def list_all_length)
  have shape: "well_shaped n m ?C"
    using assms(1,2) rowsA rowsB by (simp add: well_shaped_def list_all_length)
  have vals: "N0 ?C ! i = N0 A ! i + N0 B ! i
        \<and> (- (2^63) \<le> sint (N0 A ! i) + sint (N0 B ! i) \<and> sint (N0 A ! i) + sint (N0 B ! i) < 2^63
             \<longrightarrow> sint (N0 ?C ! i) = sint (N0 A ! i) + sint (N0 B ! i))
        \<and> geometric ?C ! i = (1/2) * (geometric A ! i + geometric B ! i)
        \<and> pexit ?C ! i = (1/2) * (pexit A ! i + pexit B ! i)
        \<and> pdecay ?C ! i = (1/2) * (pdecay A ! i + pdecay B ! i)
        \<and> ptrigger ?C ! i = (1/2) * (ptrigger A ! i + ptrigger B ! i)
        \<and> (\<forall>j < m. effective_area ?C ! i ! j
               = (1/2) * (effective_area A ! i ! j + effective_area B ! i ! j))" if "i < n" for i
    using assms(1,2) that rowsA [OF that] rowsB [OF that]
    by (simp add: well_shaped_def sint_sum_in_range)
  from eq shape vals show ?thesis by blast
qed

text \<open>
  The two example results satisfy the hypotheses of C3, and their combination is
  \<open>ex_sum\<close>.
\<close>

theorem add_sums_trials_and_averages_witness:
  "well_shaped 3 1 ex_result \<and> well_shaped 3 1 ex_second
   \<and> list_all2 isclose (elevation ex_result) (elevation ex_second)
   \<and> dict_ne (args ex_result) (args ex_second) = Inr False
   \<and> add ex_result ex_second = Inr ex_sum
   \<and> N0 ex_sum ! 1 = N0 ex_result ! 1 + N0 ex_second ! 1
   \<and> sint (N0 ex_sum ! 1) = sint (N0 ex_result ! 1) + sint (N0 ex_second ! 1)
   \<and> geometric ex_sum ! 1 = (1/2) * (geometric ex_result ! 1 + geometric ex_second ! 1)
   \<and> pexit ex_sum ! 1 = (1/2) * (pexit ex_result ! 1 + pexit ex_second ! 1)
   \<and> pdecay ex_sum ! 1 = (1/2) * (pdecay ex_result ! 1 + pdecay ex_second ! 1)
   \<and> ptrigger ex_sum ! 1 = (1/2) * (ptrigger ex_result ! 1 + ptrigger ex_second ! 1)
   \<and> effective_area ex_sum ! 1 ! 0
        = (1/2) * (effective_area ex_result ! 1 ! 0 + effective_area ex_second ! 1 ! 0)"
proof -
  have a: "dict_ne (args ex_result) (args ex_second) = Inr False"
    by (simp add: ex_args ex_dict_ne)
  have r: "- (2^63) \<le> sint (N0 ex_result ! 1) + sint (N0 ex_second ! 1)"
    "sint (N0 ex_result ! 1) + sint (N0 ex_second ! 1) < 2^63"
    by (simp_all add: ex_result_def ex_second_def)
  from add_sums_trials_and_averages [OF ex_shapes(1,2) ex_close(1) a]
  obtain C where C: "add ex_result ex_second = Inr C"
    and v: "\<forall>i < 3.
          N0 C ! i = N0 ex_result ! i + N0 ex_second ! i
        \<and> (- (2^63) \<le> sint (N0 ex_result ! i) + sint (N0 ex_second ! i)
              \<and> sint (N0 ex_result ! i) + sint (N0 ex_second ! i) < 2^63
             \<longrightarrow> sint (N0 C ! i) = sint (N0 ex_result ! i) + sint (N0 ex_second ! i))
        \<and> geometric C ! i = (1/2) * (geometric ex_result ! i + geometric ex_second ! i)
        \<and> pexit C ! i = (1/2) * (pexit ex_result ! i + pexit ex_second ! i)
        \<and> pdecay C ! i = (1/2) * (pdecay ex_result ! i + pdecay ex_second ! i)
        \<and> ptrigger C ! i = (1/2) * (ptrigger ex_result ! i + ptrigger ex_second ! i)
        \<and> (\<forall>j < 1. effective_area C ! i ! j
               = (1/2) * (effective_area ex_result ! i ! j + effective_area ex_second ! i ! j))"
    by blast
  from C have "C = ex_sum" by (simp add: ex_add)
  with v r have "N0 ex_sum ! 1 = N0 ex_result ! 1 + N0 ex_second ! 1
        \<and> sint (N0 ex_sum ! 1) = sint (N0 ex_result ! 1) + sint (N0 ex_second ! 1)
        \<and> geometric ex_sum ! 1 = (1/2) * (geometric ex_result ! 1 + geometric ex_second ! 1)
        \<and> pexit ex_sum ! 1 = (1/2) * (pexit ex_result ! 1 + pexit ex_second ! 1)
        \<and> pdecay ex_sum ! 1 = (1/2) * (pdecay ex_result ! 1 + pdecay ex_second ! 1)
        \<and> ptrigger ex_sum ! 1 = (1/2) * (ptrigger ex_result ! 1 + ptrigger ex_second ! 1)
        \<and> (\<forall>j < 1. effective_area ex_sum ! 1 ! j
               = (1/2) * (effective_area ex_result ! 1 ! j + effective_area ex_second ! 1 ! j))"
    by (elim allE [of _ 1]) (simp add: sint_sum_in_range)
  with ex_shapes(1,2) ex_close(1) a ex_add show ?thesis by blast
qed

text \<open>
  Claim C5 as stated fails on the elevation grid: the combination carries the grid of
  its left operand, and two grids that are close need not be equal.
\<close>

theorem add_elevation_not_commutative:
  "add ex_result ex_second = Inr ex_sum
   \<and> add ex_second ex_result = Inr (ex_sum\<lparr>elevation := [0, -5 - 1/10^6, -10]\<rparr>)
   \<and> elevation ex_sum \<noteq> elevation (ex_sum\<lparr>elevation := [0, -5 - 1/10^6, -10]\<rparr>)"
  by (simp add: ex_add ex_add_flipped) (simp add: ex_sum_def)

text \<open>
  Claim C5, amended. When the two results combine in both orders, the two combinations
  agree exactly on \<^verbatim>\<open>N0\<close>, on the effective area, on the geometric area, on the three
  probabilities and on \<^verbatim>\<open>args\<close>; each carries the elevation grid of its own left
  operand.
\<close>

theorem add_commutes_up_to_elevation:
  assumes "add A B = Inr C" and "add B A = Inr C'"
  shows "N0 C' = N0 C \<and> effective_area C' = effective_area C \<and> geometric C' = geometric C
       \<and> pexit C' = pexit C \<and> pdecay C' = pdecay C \<and> ptrigger C' = ptrigger C
       \<and> args C' = args C \<and> elevation C = elevation A \<and> elevation C' = elevation B"
proof -
  from assms have "C' = C\<lparr>elevation := elevation B\<rparr>"
    by (rule add_commute_fields)
  moreover from assms(1) have "elevation C = elevation A"
    by (rule add_Inr_checks)
  ultimately show ?thesis by simp
qed

text \<open>
  The example results combine in both orders.
\<close>

theorem add_commutes_up_to_elevation_witness:
  "add ex_result ex_second = Inr ex_sum
   \<and> add ex_second ex_result = Inr (ex_sum\<lparr>elevation := [0, -5 - 1/10^6, -10]\<rparr>)
   \<and> N0 (ex_sum\<lparr>elevation := [0, -5 - 1/10^6, -10]\<rparr>) = N0 ex_sum
   \<and> effective_area (ex_sum\<lparr>elevation := [0, -5 - 1/10^6, -10]\<rparr>) = effective_area ex_sum
   \<and> geometric (ex_sum\<lparr>elevation := [0, -5 - 1/10^6, -10]\<rparr>) = geometric ex_sum
   \<and> elevation ex_sum = elevation ex_result
   \<and> elevation (ex_sum\<lparr>elevation := [0, -5 - 1/10^6, -10]\<rparr>) = elevation ex_second"
  using add_commutes_up_to_elevation [OF ex_add ex_add_flipped] ex_add ex_add_flipped
  by simp

text \<open>
  Claim C6 fails on the code. Two results of two runs at two azimuths satisfy the
  precondition of the claim: their elevation grids have one length and are close, and
  their \<^verbatim>\<open>args\<close> hold the same values. The comparison of the two gain tables has no
  truth value, and the combination raises the error of NumPy in place of a result.
\<close>

theorem add_equal_gain_tables_raise:
  "well_shaped 3 2 ex_wide1 \<and> well_shaped 3 2 ex_wide2
   \<and> length (elevation ex_wide1) = length (elevation ex_wide2)
   \<and> list_all2 isclose (elevation ex_wide1) (elevation ex_wide2)
   \<and> args ex_wide1 = args ex_wide2
   \<and> args ex_wide1 ''gain'' = Some (Arr [1, 2])
   \<and> add ex_wide1 ex_wide2 = Inl AmbiguousTruthValue"
proof -
  have len: "length (elevation ex_wide1) = length (elevation ex_wide2)"
    by (simp add: ex_wide1_def ex_wide2_def)
  have n0: "np_add (N0 ex_wide1) (N0 ex_wide2) = Inr [10, 10, 8]"
    by (simp add: np_add_same_length ex_wide1_def ex_wide2_def)
  have g: "args ex_wide1 ''gain'' = Some (Arr [1, 2])"
    by (simp add: ex_wide(4) ex_wide_args_def make_args_def)
  have "add ex_wide1 ex_wide2 = Inl AmbiguousTruthValue"
    unfolding add_def using len ex_wide(3)
    by (simp add: n0 and_then_def ex_wide(4,5,6))
  with ex_wide len g show ?thesis by simp
qed

section \<open>Loading and combining files\<close>

text \<open>
  Claim C2 as stated fails in both directions. A later file recorded at the reference
  altitude \<open>3.87553\<close> is skipped although it could be combined, and a later file recorded
  at another altitude is combined.
\<close>

theorem from_files_filter_inverted:
  "from_files ex_fs [''default1.pkl'', ''default2.pkl''] = Inr ex_default
   \<and> args ex_default2 ''altitude'' = Some (Num (387553 / 100000))
   \<and> add ex_default ex_default2 = Inr (ex_sum\<lparr>args := ex_default_args\<rparr>)
   \<and> from_files ex_fs [''run1.pkl'', ''run2.pkl''] = Inr ex_sum
   \<and> args ex_second ''altitude'' = Some (Num 4)
   \<and> ex_sum \<noteq> ex_result"
proof -
  have 1: "from_files ex_fs [''default1.pkl'', ''default2.pkl''] = Inr ex_default"
    by (simp add: from_files_def from_file_def ex_fs_lookup ex_file_altitudes)
  have c: "list_all2 isclose (elevation ex_default) (elevation ex_default2)"
    using ex_close(1) by (simp add: ex_default_def ex_default2_def)
  have 2: "add ex_default ex_default2 = Inr (ex_sum\<lparr>args := ex_default_args\<rparr>)"
    using add_well_shaped [OF ex_shapes(4,5) c]
    by (simp add: ex_args ex_dict_ne)
       (simp add: ex_default_def ex_default2_def ex_result_def ex_second_def ex_sum_def)
  have 3: "from_files ex_fs [''run1.pkl'', ''run2.pkl''] = Inr ex_sum"
    by (simp add: from_files_def from_file_def ex_fs_lookup ex_file_altitudes ex_add)
  have 4: "ex_sum \<noteq> ex_result"
    by (simp add: ex_sum_def ex_result_def)
  from 1 2 3 4 show ?thesis by (simp add: ex_file_altitudes)
qed

text \<open>
  Claim C2, amended. When every file loads and every later file records an altitude,
  \<^verbatim>\<open>from_files\<close> combines the first file, in order, with exactly those later files whose
  recorded altitude differs from \<open>3.87553\<close>; a later file recorded at \<open>3.87553\<close> is
  skipped.
\<close>

theorem from_files_skips_reference_altitude:
  assumes "fs f = Some A0" and "list_all2 (\<lambda>f A. fs f = Some A) rest As"
    and "list_all (\<lambda>A. args A ''altitude'' \<noteq> None) As"
  shows "from_files fs (f # rest) =
    add_all A0 (filter (\<lambda>A. args A ''altitude'' \<noteq> Some (Num (387553 / 100000))) As)"
  using assms by (simp add: from_files_def from_file_def from_files_loop_filter)

text \<open>
  Three files, the second of them recorded at the reference altitude.
\<close>

theorem from_files_skips_reference_altitude_witness:
  "ex_fs ''run1.pkl'' = Some ex_result
   \<and> list_all2 (\<lambda>f A. ex_fs f = Some A) [''default1.pkl'', ''run2.pkl''] [ex_default, ex_second]
   \<and> list_all (\<lambda>A. args A ''altitude'' \<noteq> None) [ex_default, ex_second]
   \<and> from_files ex_fs [''run1.pkl'', ''default1.pkl'', ''run2.pkl''] = Inr ex_sum"
proof -
  have h: "list_all2 (\<lambda>f A. ex_fs f = Some A) [''default1.pkl'', ''run2.pkl''] [ex_default, ex_second]"
    "list_all (\<lambda>A. args A ''altitude'' \<noteq> None) [ex_default, ex_second]"
    by (simp_all add: ex_fs_lookup ex_file_altitudes)
  from from_files_skips_reference_altitude [OF ex_fs_lookup(1) h] h
  show ?thesis
    by (simp add: ex_fs_lookup ex_file_altitudes ex_add)
qed

text \<open>
  Claim C9. \<^verbatim>\<open>from_files\<close> on a list of one file returns what \<^verbatim>\<open>from_file\<close> returns
  for it, whatever altitude the file records. On a longer list of files that load and
  record an altitude, \<^verbatim>\<open>from_files\<close> returns, or raises, what the combination of the
  first file with the later files of another altitude than \<open>3.87553\<close> returns or raises:
  the filter reads the later files only, and the first file is combined whatever altitude
  it records. When the files have one shape and the combination succeeds, the result has
  the elevation grid and the \<^verbatim>\<open>args\<close> of the first file, and in every bin its trial count
  is the trial count of the first file plus those of the later files that were not
  skipped.
\<close>

theorem from_files_first_file_unfiltered:
  "from_files fs [f] = from_file fs f
   \<and> (fs f = Some A0 \<and> list_all2 (\<lambda>f A. fs f = Some A) rest As
        \<and> list_all (\<lambda>A. args A ''altitude'' \<noteq> None) As
      \<longrightarrow> from_files fs (f # rest)
            = add_all A0 (filter (\<lambda>A. args A ''altitude'' \<noteq> Some (Num (387553 / 100000))) As)
          \<and> (well_shaped n m A0 \<and> list_all (well_shaped n m) As
                \<and> from_files fs (f # rest) = Inr R
              \<longrightarrow> well_shaped n m R \<and> elevation R = elevation A0 \<and> args R = args A0
                  \<and> (\<forall>i < n. N0 R ! i = N0 A0 ! i
                        + sum_list (map (\<lambda>A. N0 A ! i)
                            (filter (\<lambda>A. args A ''altitude'' \<noteq> Some (Num (387553 / 100000))) As)))))"
proof -
  let ?kept = "filter (\<lambda>A. args A ''altitude'' \<noteq> Some (Num (387553 / 100000))) As"
  have 1: "from_files fs [f] = from_file fs f"
    by (simp add: from_files_def split: sum.splits)
  have 2: "from_files fs (f # rest) = add_all A0 ?kept"
    if "fs f = Some A0" "list_all2 (\<lambda>f A. fs f = Some A) rest As"
      "list_all (\<lambda>A. args A ''altitude'' \<noteq> None) As"
    using that by (simp add: from_files_def from_file_def from_files_loop_filter)
  have 3: "well_shaped n m R \<and> elevation R = elevation A0 \<and> args R = args A0
          \<and> (\<forall>i < n. N0 R ! i = N0 A0 ! i + sum_list (map (\<lambda>A. N0 A ! i) ?kept))"
    if h: "from_files fs (f # rest) = add_all A0 ?kept"
      "well_shaped n m A0" "list_all (well_shaped n m) As"
      "from_files fs (f # rest) = Inr R"
  proof -
    from h(1,4) have a: "add_all A0 ?kept = Inr R"
      by simp
    have k: "list_all (well_shaped n m) ?kept"
      using h(3) by (simp add: list_all_iff)
    from add_all_counts [OF a h(2) k] show ?thesis .
  qed
  from 1 2 3 show ?thesis by blast
qed

text \<open>
  A first file recorded at the reference altitude, alone and in front of a second file
  that the loop skips; and a list of three files in which the trial counts of the first
  and of the third are added.
\<close>

theorem from_files_first_file_unfiltered_witness:
  "from_file ex_fs ''default1.pkl'' = Inr ex_default
   \<and> args ex_default ''altitude'' = Some (Num (387553 / 100000))
   \<and> from_files ex_fs [''default1.pkl''] = Inr ex_default
   \<and> from_files ex_fs [''default1.pkl'', ''default2.pkl''] = Inr ex_default
   \<and> N0 ex_default ! 1 = N0 ex_default ! 1 + 0
   \<and> from_files ex_fs [''run1.pkl'', ''default1.pkl'', ''run2.pkl''] = Inr ex_sum
   \<and> elevation ex_sum = elevation ex_result \<and> args ex_sum = args ex_result
   \<and> N0 ex_sum ! 1 = N0 ex_result ! 1 + (N0 ex_second ! 1 + 0)"
proof -
  have l: "from_file ex_fs ''default1.pkl'' = Inr ex_default"
    by (simp add: from_file_def ex_fs_lookup)
  have d: "from_files ex_fs [''default1.pkl'', ''default2.pkl''] = Inr ex_default"
    by (simp add: from_files_def from_file_def ex_fs_lookup ex_file_altitudes)
  have r: "from_files ex_fs [''run1.pkl'', ''default1.pkl'', ''run2.pkl''] = Inr ex_sum"
    by (simp add: from_files_def from_file_def ex_fs_lookup ex_file_altitudes ex_add)
  have h1: "list_all2 (\<lambda>f A. ex_fs f = Some A) [''default1.pkl'', ''run2.pkl''] [ex_default, ex_second]"
    "list_all (\<lambda>A. args A ''altitude'' \<noteq> None) [ex_default, ex_second]"
    by (simp_all add: ex_fs_lookup ex_file_altitudes)
  have s1: "list_all (well_shaped 3 1) [ex_default, ex_second]"
    using ex_shapes(2,4) by (simp only: list.pred_inject simp_thms)
  have h2: "list_all2 (\<lambda>f A. ex_fs f = Some A) [''default2.pkl''] [ex_default2]"
    "list_all (\<lambda>A. args A ''altitude'' \<noteq> None) [ex_default2]"
    by (simp_all add: ex_fs_lookup ex_file_altitudes)
  have s2: "list_all (well_shaped 3 1) [ex_default2]"
    using ex_shapes(5) by (simp only: list.pred_inject simp_thms)
  note t = from_files_first_file_unfiltered
  from t [where fs = ex_fs and f = "''default1.pkl''"] l
  have 1: "from_files ex_fs [''default1.pkl''] = Inr ex_default"
    by simp
  from t [where fs = ex_fs and f = "''run1.pkl''" and ?A0.0 = ex_result
      and rest = "[''default1.pkl'', ''run2.pkl'']" and As = "[ex_default, ex_second]"
      and n = 3 and m = 1 and R = ex_sum] ex_fs_lookup(1) h1 s1 ex_shapes(1) r
  have 2: "elevation ex_sum = elevation ex_result \<and> args ex_sum = args ex_result
      \<and> N0 ex_sum ! 1 = N0 ex_result ! 1 + (N0 ex_second ! 1 + 0)"
    by (simp add: ex_file_altitudes)
  from t [where fs = ex_fs and f = "''default1.pkl''" and ?A0.0 = ex_default
      and rest = "[''default2.pkl'']" and As = "[ex_default2]"
      and n = 3 and m = 1 and R = ex_default] ex_fs_lookup(3) h2 s2 ex_shapes(4) d
  have 3: "N0 ex_default ! 1 = N0 ex_default ! 1 + 0"
    by (simp add: ex_file_altitudes)
  from l d r 1 2 3 show ?thesis
    by (simp only: ex_file_altitudes simp_thms)
qed

section \<open>The results of \<^verbatim>\<open>calculate\<close>\<close>

text \<open>
  Claim C1 as stated fails. In the third bin of the example run the stored effective
  area is \<open>1/16\<close> and the product of the three stored factors is \<open>1/64\<close>: the mean of a
  product over the trials is not bounded by the product of the means.
\<close>

theorem effective_area_exceeds_product_of_means:
  "calculate ex_params ex_elev ex_sampler = Inr ex_result
   \<and> \<not> effective_area ex_result ! 2 ! 0
        \<le> geometric ex_result ! 2 * pexit ex_result ! 2 * pdecay ex_result ! 2"
  by (simp add: ex_calculate) (simp add: ex_result_def)

text \<open>
  Claim C1, amended. In every result of \<^verbatim>\<open>calculate\<close>, for every elevation bin with a
  positive trial count whose batch is empty or has a trial at which a tau exited, and has
  a non-negative area, non-negative dot products and exit and decay probabilities
  between 0 and 1, every entry of the bin's effective-area row is at most the sum over
  the trials of area, dot product, exit and decay probability divided by the trial count
  (the trigger indicator only reduces it). Stored as the geometric area is stored, it is
  at most the bin's geometric area: on a grid of floating-point elevations the entry
  itself is at most the geometric area, and on a grid of integer elevations, where the
  geometric area has lost its fraction and the effective area has not, the entry without
  its fraction is.
\<close>

theorem effective_area_bounded:
  assumes "calculate p elev sampler = Inr r" and "i < length elev" and "k < length (azimuths p)"
    and "0 < sint (N0 r ! i)" and "0 \<le> area (sampler i)"
    and "\<forall>t \<in> set (trials (sampler i)). 0 \<le> dot t \<and> 0 \<le> Pdecay t \<and> Pdecay t \<le> 1
           \<and> (\<forall>pe. Pexit t = Some pe \<longrightarrow> 0 \<le> pe \<and> pe \<le> 1)"
    and "trials (sampler i) = [] \<or> (\<exists>t \<in> set (trials (sampler i)). Pexit t \<noteq> None)"
  shows "effective_area r ! i ! k
           \<le> sum_list (map (untriggered (sampler i)) (trials (sampler i))) / real_of_int (sint (N0 r ! i))
       \<and> stored elev (effective_area r ! i ! k) \<le> geometric r ! i"
proof (cases "trials (sampler i) = []")
  case True
  from calculate_empty_bin [OF assms(1,2) True] assms(3) True show ?thesis
    by (simp add: stored_zero)
next
  case False
  let ?Ag = "sampler i" and ?n = "real_of_int (sint (N0 r ! i))"
  note vals = calculate_nonempty_bin [OF assms(1,2) False]
  have n: "0 < ?n" using assms(4) by (simp only: of_int_0_less_iff)
  have ea: "effective_area r ! i ! k = ma_sum (map (weighted ?Ag) (trials ?Ag)) / ?n"
    using vals assms(3) by (simp add: bin_effective_area_def)
  have geo: "geometric r ! i = stored elev (sum_list (map (\<lambda>t. area ?Ag * dot t) (trials ?Ag)) / ?n)"
    using vals by (simp add: bin_geometric_def sum_list_const_mult)
  have 1: "ma_sum (map (weighted ?Ag) (trials ?Ag)) \<le> sum_list (map (untriggered ?Ag) (trials ?Ag))"
    unfolding ma_sum_case untriggered_def
    using assms(5,6) by (intro sum_list_mono_real weighted_bounds(1)) auto
  have 2: "sum_list (map (untriggered ?Ag) (trials ?Ag)) \<le> sum_list (map (\<lambda>t. area ?Ag * dot t) (trials ?Ag))"
    unfolding untriggered_def
    using assms(5,6) by (intro sum_list_mono_real weighted_bounds(2)) auto
  from 1 n have a: "effective_area r ! i ! k \<le> sum_list (map (untriggered ?Ag) (trials ?Ag)) / ?n"
    unfolding ea by (simp add: divide_right_mono)
  from 1 2 n have "effective_area r ! i ! k \<le> sum_list (map (\<lambda>t. area ?Ag * dot t) (trials ?Ag)) / ?n"
    unfolding ea by (simp add: divide_right_mono)
  then have b: "stored elev (effective_area r ! i ! k) \<le> geometric r ! i"
    unfolding geo by (rule stored_mono)
  from a b show ?thesis ..
qed

text \<open>
  The third bin of the example run, on the grid of floating-point elevations and on the
  grid of integer elevations.
\<close>

theorem effective_area_bounded_witness:
  "calculate ex_params ex_elev ex_sampler = Inr ex_result
   \<and> effective_area ex_result ! 2 ! 0 = 1/16
   \<and> sum_list (map (untriggered (ex_sampler 2)) (trials (ex_sampler 2))) / real_of_int (sint (N0 ex_result ! 2)) = 1/16
   \<and> geometric ex_result ! 2 = 1/4
   \<and> effective_area ex_result ! 2 ! 0
        \<le> sum_list (map (untriggered (ex_sampler 2)) (trials (ex_sampler 2))) / real_of_int (sint (N0 ex_result ! 2))
   \<and> stored ex_elev (effective_area ex_result ! 2 ! 0) = 1/16
   \<and> stored ex_elev (effective_area ex_result ! 2 ! 0) \<le> geometric ex_result ! 2
   \<and> calculate ex_params ex_int_elev ex_sampler = Inr ex_int_result
   \<and> effective_area ex_int_result ! 2 ! 0 = 1/16
   \<and> geometric ex_int_result ! 2 = 0
   \<and> stored ex_int_elev (effective_area ex_int_result ! 2 ! 0) = 0
   \<and> stored ex_int_elev (effective_area ex_int_result ! 2 ! 0) \<le> geometric ex_int_result ! 2"
proof -
  have h: "(2::nat) < length ex_elev" "(0::nat) < length (azimuths ex_params)"
    "0 < sint (N0 ex_result ! 2)" "0 \<le> area (ex_sampler 2)"
    by (simp_all add: ex_elev_def ex_params_def ex_result_def ex_sampler_def ex_small_site)
  have hi: "(2::nat) < length ex_int_elev" "0 < sint (N0 ex_int_result ! 2)"
    by (simp_all add: ex_int_elev_def ex_int_result_def)
  have t: "\<forall>t \<in> set (trials (ex_sampler 2)). 0 \<le> dot t \<and> 0 \<le> Pdecay t \<and> Pdecay t \<le> 1
           \<and> (\<forall>pe. Pexit t = Some pe \<longrightarrow> 0 \<le> pe \<and> pe \<le> 1)"
    by (simp add: ex_sampler_def ex_small_site ex_trial_fields)
  have v: "effective_area ex_result ! 2 ! 0 = 1/16" "geometric ex_result ! 2 = 1/4"
    "effective_area ex_int_result ! 2 ! 0 = 1/16" "geometric ex_int_result ! 2 = 0"
    by (simp_all add: ex_result_def ex_int_result_def)
  have s: "stored ex_elev (1/16) = 1/16" "stored ex_int_elev (1/16) = 0"
    by (simp_all add: stored_def integer_grid_def ex_elev_def ex_int_elev_def drop_fraction_def)
  have u: "sum_list (map (untriggered (ex_sampler 2)) (trials (ex_sampler 2))) / real_of_int (sint (N0 ex_result ! 2)) = 1/16"
    by (simp add: ex_sampler_def ex_small_site untriggered_def ex_trial_fields ex_result_def)
  have "t_side \<in> set (trials (ex_sampler 2))" and "Pexit t_side \<noteq> None"
    by (simp_all add: ex_sampler_def ex_small_site ex_trial_fields)
  then have e: "trials (ex_sampler 2) = [] \<or> (\<exists>t \<in> set (trials (ex_sampler 2)). Pexit t \<noteq> None)"
    by blast
  have s': "stored ex_elev (effective_area ex_result ! 2 ! 0) = 1/16"
    "stored ex_int_elev (effective_area ex_int_result ! 2 ! 0) = 0"
    unfolding v by (rule s)+
  from effective_area_bounded [OF ex_calculate h t e]
    effective_area_bounded [OF ex_int_calculate hi(1) h(2) hi(2) h(4) t e]
    ex_calculate ex_int_calculate v u s'
  show ?thesis by blast
qed




text \<open>
  Claim C7 fails in the code. On a grid of one elevation bin for which the sampler returns
  no trial, \<^verbatim>\<open>calculate\<close> passes the bin without an assignment, as the comment at the
  \<^verbatim>\<open>continue\<close> intends, and then raises \<^verbatim>\<open>UnboundLocalError\<close> where it builds the
  dictionary of arguments: \<^verbatim>\<open>gain\<close> is assigned only in a pass of the loop that gets
  beyond the \<^verbatim>\<open>continue\<close>. No result is returned, so the empty bin has no outputs at
  all. When another bin of the grid has trials, as in the example run, the empty bin is
  passed and holds zero in every output.
\<close>

theorem single_empty_bin_raises:
  "trials (ex_unreachable 0) = []
   \<and> calculate (ex_params\<lparr>N := Scalar 4\<rparr>) [Float 0] ex_unreachable = Inl UnboundLocalError
   \<and> trials (ex_sampler 0) = []
   \<and> calculate ex_params ex_elev ex_sampler = Inr ex_result
   \<and> geometric ex_result ! 0 = 0 \<and> pexit ex_result ! 0 = 0 \<and> pdecay ex_result ! 0 = 0
   \<and> ptrigger ex_result ! 0 = 0 \<and> effective_area ex_result ! 0 = [0]"
proof -
  have e: "trials (ex_unreachable 0) = []" "trials (ex_sampler 0) = []"
    by (simp_all add: ex_unreachable_def ex_sampler_def ex_empty_def)
  have h1: "\<forall>i < length [Float 0]. trials (ex_unreachable i) = []"
    by (simp add: ex_unreachable_def ex_empty_def)
  have h2: "length [Float 0] \<le> length (trial_array (ex_params\<lparr>N := Scalar 4\<rparr>) (length [Float 0]))"
    by (simp add: trial_array_def)
  from calculate_all_empty [OF h1 h2]
  have 1: "calculate (ex_params\<lparr>N := Scalar 4\<rparr>) [Float 0] ex_unreachable = Inl UnboundLocalError" .
  have 2: "geometric ex_result ! 0 = 0" "pexit ex_result ! 0 = 0" "pdecay ex_result ! 0 = 0"
    "ptrigger ex_result ! 0 = 0" "effective_area ex_result ! 0 = [0]"
    by (simp_all add: ex_result_def)
  from e 1 ex_calculate 2 show ?thesis by blast
qed

text \<open>
  Claim C8. In every result of \<^verbatim>\<open>calculate\<close>, for every trial \<open>t\<close> of the batch of a
  bin: if \<open>t\<close> is beyond the horizon distance and below the horizon angle, or above the
  payload's horizontal, its trigger indicator is zero whatever the trigger heuristic
  said, and the trigger probability and the effective-area row of the bin are those of
  the sums over the other trials (the trial still counts in the divisors); the exit and
  decay probabilities of the bin are the means over all trials of the batch, \<open>t\<close>
  included; and if \<open>t\<close> is not both beyond and below and is not above the horizontal,
  its trigger indicator is the outcome of the trigger heuristic. The three
  probabilities are stored in arrays of the type of the elevation grid, so without
  their fraction on a grid of integer elevations.
\<close>

theorem suppressed_trial_contributes_nothing:
  assumes "calculate p elev sampler = Inr r" and "i < length elev"
    and "trials (sampler i) = xs @ t # ys"
  shows "((D (sampler i) t > horizon_distance (sampler i) \<and> theta (sampler i) t < horizon_angle (sampler i))
            \<or> theta (sampler i) t > 0 \<longrightarrow>
          \<not> Ptrig (sampler i) t
          \<and> ptrigger r ! i = stored elev
              (sum_list (map (\<lambda>u. of_bool (Ptrig (sampler i) u)) (xs @ ys)) / real (length (xs @ t # ys)))
          \<and> effective_area r ! i =
              replicate (length (azimuths p))
                (ma_sum (map (weighted (sampler i)) (xs @ ys)) / real_of_int (sint (N0 r ! i))))
       \<and> pexit r ! i = stored elev (ma_mean (map Pexit (xs @ t # ys)))
       \<and> pdecay r ! i = stored elev (mean (map Pdecay (xs @ t # ys)))
       \<and> (\<not> (D (sampler i) t > horizon_distance (sampler i) \<and> theta (sampler i) t < horizon_angle (sampler i))
            \<and> theta (sampler i) t \<le> 0 \<longrightarrow>
          Ptrig (sampler i) t = raw_trigger t)"
proof -
  let ?Ag = "sampler i"
  have ne: "trials ?Ag \<noteq> []" using assms(3) by simp
  note vals = calculate_nonempty_bin [OF assms(1,2) ne]
  have supp: "\<not> Ptrig ?Ag t"
    if "(D ?Ag t > horizon_distance ?Ag \<and> theta ?Ag t < horizon_angle ?Ag) \<or> theta ?Ag t > 0"
    using that by (auto simp: Ptrig_def invisible_def beyond_def below_def)
  have w0: "unmasked [weighted ?Ag t] = [] \<or> unmasked [weighted ?Ag t] = [0]" if "\<not> Ptrig ?Ag t"
    using that by (cases "Pexit t") (simp_all add: weighted_def)
  have um: "unmasked (as @ bs) = unmasked as @ unmasked bs" for as bs :: "real option list"
    by (induction as rule: unmasked.induct) simp_all
  have ea: "ma_sum (map (weighted ?Ag) (xs @ t # ys)) = ma_sum (map (weighted ?Ag) (xs @ ys))"
    if "\<not> Ptrig ?Ag t"
  proof -
    have "sum_list (unmasked [weighted ?Ag t]) = 0" using w0 [OF that] by auto
    then show ?thesis
      using um [of "map (weighted ?Ag) xs" "weighted ?Ag t # map (weighted ?Ag) ys"]
        um [of "[weighted ?Ag t]" "map (weighted ?Ag) ys"]
        um [of "map (weighted ?Ag) xs" "map (weighted ?Ag) ys"]
      by (simp add: ma_sum_def)
  qed
  have pt: "sum_list (map (\<lambda>u. of_bool (Ptrig ?Ag u)) (xs @ t # ys))
      = (sum_list (map (\<lambda>u. of_bool (Ptrig ?Ag u)) (xs @ ys)) :: real)" if "\<not> Ptrig ?Ag t"
    using that by simp
  have a: "\<not> Ptrig ?Ag t
          \<and> ptrigger r ! i = stored elev
              (sum_list (map (\<lambda>u. of_bool (Ptrig ?Ag u)) (xs @ ys)) / real (length (xs @ t # ys)))
          \<and> effective_area r ! i =
              replicate (length (azimuths p))
                (ma_sum (map (weighted ?Ag) (xs @ ys)) / real_of_int (sint (N0 r ! i)))"
    if s: "(D ?Ag t > horizon_distance ?Ag \<and> theta ?Ag t < horizon_angle ?Ag) \<or> theta ?Ag t > 0"
  proof -
    note n = supp [OF s]
    have "ptrigger r ! i = stored elev
        (sum_list (map (\<lambda>u. of_bool (Ptrig ?Ag u)) (xs @ t # ys)) / real (length (xs @ t # ys)))"
      using vals by (simp add: bin_ptrigger_def mean_def assms(3))
    moreover have "effective_area r ! i = replicate (length (azimuths p))
                (ma_sum (map (weighted ?Ag) (xs @ t # ys)) / real_of_int (sint (N0 r ! i)))"
      using vals by (simp add: bin_effective_area_def assms(3))
    ultimately show ?thesis
      unfolding ea [OF n] pt [OF n] using n by simp
  qed
  have b: "pexit r ! i = stored elev (ma_mean (map Pexit (xs @ t # ys)))"
    "pdecay r ! i = stored elev (mean (map Pdecay (xs @ t # ys)))"
    using vals by (simp_all add: bin_pexit_def bin_pdecay_def assms(3))
  have c: "Ptrig ?Ag t = raw_trigger t"
    if "\<not> (D ?Ag t > horizon_distance ?Ag \<and> theta ?Ag t < horizon_angle ?Ag)" "theta ?Ag t \<le> 0"
    using that by (auto simp: Ptrig_def invisible_def beyond_def below_def)
  from a b c show ?thesis by blast
qed


text \<open>
  The second bin of the example run: a hidden trial, a trial above the horizontal, a
  trial beyond the horizon but not below it, and a trial below the horizon angle but not
  beyond the horizon; the heuristic triggers on all four. On the grid of integer
  elevations the trigger probability \<open>3/5\<close> of the bin is stored as zero.
\<close>

theorem suppressed_trial_contributes_nothing_witness:
  "calculate ex_params ex_elev ex_sampler = Inr ex_result
   \<and> trials (ex_sampler 1) = [t_side, t_noexit] @ t_hidden # [t_above, t_near]
   \<and> D ex_batch t_hidden > horizon_distance ex_batch
   \<and> theta ex_batch t_hidden < horizon_angle ex_batch
   \<and> raw_trigger t_hidden \<and> \<not> Ptrig ex_batch t_hidden
   \<and> theta ex_batch t_above > 0 \<and> raw_trigger t_above \<and> \<not> Ptrig ex_batch t_above
   \<and> ptrigger ex_result ! 1 = (1 + 1 + 0 + 1) / 5
   \<and> effective_area ex_result ! 1 = [(1/4 + 0 + 1/4) / 5]
   \<and> pexit ex_result ! 1 = ma_mean [Some (1/2), None, Some (1/2), Some (1/2), Some (1/2)]
   \<and> pdecay ex_result ! 1 = mean [1/2, 1/2, 1/2, 1/2, 1/2]
   \<and> D ex_batch t_side > horizon_distance ex_batch
   \<and> \<not> theta ex_batch t_side < horizon_angle ex_batch \<and> theta ex_batch t_side \<le> 0
   \<and> Ptrig ex_batch t_side = raw_trigger t_side
   \<and> \<not> D ex_batch t_near > horizon_distance ex_batch
   \<and> theta ex_batch t_near < horizon_angle ex_batch \<and> theta ex_batch t_near \<le> 0
   \<and> Ptrig ex_batch t_near = raw_trigger t_near
   \<and> calculate ex_params ex_int_elev ex_sampler = Inr ex_int_result
   \<and> ptrigger ex_int_result ! 1 = stored ex_int_elev ((1 + 1 + 0 + 1) / 5)
   \<and> ptrigger ex_int_result ! 1 = 0
   \<and> effective_area ex_int_result ! 1 = [(1/4 + 0 + 1/4) / 5]"
proof -
  note th = ex_theta [OF ex_batch_site(1)] and di = ex_D [OF ex_batch_site(1)]
  have i: "(1::nat) < length ex_elev" "(1::nat) < length ex_int_elev"
    by (simp_all add: ex_elev_def ex_int_elev_def)
  have tr: "trials (ex_sampler 1) = [t_side, t_noexit] @ t_hidden # [t_above, t_near]"
    "trials (ex_sampler 1) = [t_side, t_noexit, t_hidden] @ t_above # [t_near]"
    "trials (ex_sampler 1) = [] @ t_side # [t_noexit, t_hidden, t_above, t_near]"
    "trials (ex_sampler 1) = [t_side, t_noexit, t_hidden, t_above] @ t_near # []"
    by (simp_all only: ex_sampler_simps ex_batch_site append.simps)
  have hidden: "D ex_batch t_hidden > horizon_distance ex_batch"
    "theta ex_batch t_hidden < horizon_angle ex_batch"
    using pi_ge_two by (simp_all add: th di ex_batch_site)
  have above: "theta ex_batch t_above > 0"
    by (simp add: th)
  have side: "D ex_batch t_side > horizon_distance ex_batch"
    "\<not> theta ex_batch t_side < horizon_angle ex_batch" "theta ex_batch t_side \<le> 0"
    by (simp_all add: th di ex_batch_site)
  have near: "\<not> D ex_batch t_near > horizon_distance ex_batch"
    "theta ex_batch t_near < horizon_angle ex_batch" "theta ex_batch t_near \<le> 0"
    using pi_ge_two by (simp_all add: th di ex_batch_site)
  have vals: "ptrigger ex_result ! 1 = (1 + 1 + 0 + 1) / 5"
    "effective_area ex_result ! 1 = [(1/4 + 0 + 1/4) / 5]"
    "pexit ex_result ! 1 = ma_mean [Some (1/2), None, Some (1/2), Some (1/2), Some (1/2)]"
    "pdecay ex_result ! 1 = mean [1/2, 1/2, 1/2, 1/2, 1/2]"
    by (simp_all add: ex_result_def ma_mean_def mean_def)
  have ivals: "ptrigger ex_int_result ! 1 = stored ex_int_elev ((1 + 1 + 0 + 1) / 5)"
    "ptrigger ex_int_result ! 1 = 0"
    "effective_area ex_int_result ! 1 = [(1/4 + 0 + 1/4) / 5]"
    by (simp_all add: ex_int_result_def stored_def integer_grid_def ex_int_elev_def drop_fraction_def)
  from suppressed_trial_contributes_nothing [OF ex_calculate i(1) tr(1)] hidden
  have 1: "\<not> Ptrig ex_batch t_hidden"
    by (simp only: ex_sampler_simps simp_thms)
  from suppressed_trial_contributes_nothing [OF ex_calculate i(1) tr(2)] above
  have 2: "\<not> Ptrig ex_batch t_above"
    by (simp only: ex_sampler_simps simp_thms)
  from suppressed_trial_contributes_nothing [OF ex_calculate i(1) tr(3)] side
  have 3: "Ptrig ex_batch t_side = raw_trigger t_side"
    by (simp only: ex_sampler_simps simp_thms)
  from suppressed_trial_contributes_nothing [OF ex_int_calculate i(2) tr(4)] near
  have 4: "Ptrig ex_batch t_near = raw_trigger t_near"
    by (simp only: ex_sampler_simps simp_thms)
  from ex_calculate ex_int_calculate tr(1) hidden above side near vals ivals 1 2 3 4
    ex_raw_trigger(3,4)
  show ?thesis by blast
qed

text \<open>
  Claim C10. When the sampler returns no trial in any elevation bin, and the trial
  counts cover the grid, \<^verbatim>\<open>calculate\<close> returns no result: the loop never assigns
  \<^verbatim>\<open>gain\<close>, and building the dictionary of arguments fails on the unbound variable.
\<close>

theorem all_bins_empty_unbound_gain:
  assumes "\<forall>i < length elev. trials (sampler i) = []"
    and "length elev \<le> length (trial_array p (length elev))"
  shows "calculate p elev sampler = Inl UnboundLocalError"
  using assms by (rule calculate_all_empty)

text \<open>
  The example grid with a sampler that never returns a trial.
\<close>

theorem all_bins_empty_unbound_gain_witness:
  "trials ex_empty = []
   \<and> length ex_elev \<le> length (trial_array ex_params (length ex_elev))
   \<and> calculate ex_params ex_elev ex_unreachable = Inl UnboundLocalError"
proof -
  have e: "trials ex_empty = []"
    by (simp add: ex_empty_def)
  then have h1: "\<forall>i < length ex_elev. trials (ex_unreachable i) = []"
    by (simp add: ex_unreachable_def)
  have h2: "length ex_elev \<le> length (trial_array ex_params (length ex_elev))"
    by (simp add: ex_elev_def trial_array_def ex_params_def)
  from all_bins_empty_unbound_gain [OF h1 h2] e h2 show ?thesis by simp
qed

end
